theory Spec2Isabelle
  imports Complex_Main
begin

section \<open>JavaScript numbers\<close>

text \<open>
  A JavaScript number is an IEEE 754 binary64 value. The finite ones are real numbers
  (the fixed points of \<open>double_of\<close> below); the model carries them as \<open>Fin x\<close> and keeps NaN
  and the two infinities apart. The sign of zero is not modelled: the program only
  multiplies, rounds, compares and prints numbers, and none of these tells \<open>-0\<close> from
  \<open>+0\<close>.
\<close>

datatype number = NaN | NegInf | Fin real | PosInf

text \<open>Rounding to the nearest integer, a tie going to the even one.\<close>

definition round_half_even :: "real \<Rightarrow> int" where
  "round_half_even t =
     (let f = \<lfloor>t\<rfloor>; d = t - of_int f
      in if d < 1 / 2 then f else if 1 / 2 < d then f + 1 else if even f then f else f + 1)"

text \<open>\<open>ilog b a\<close> is the integer \<open>e\<close> with \<open>b powi e \<le> a < b powi (e + 1)\<close>, for \<open>0 < a\<close>.\<close>

function ilog :: "real \<Rightarrow> real \<Rightarrow> int" where
  "ilog b a =
     (if a \<le> 0 \<or> b < 2 then 0
      else if b \<le> a then ilog b (a / b) + 1
      else if a < 1 then ilog b (a * b) - 1
      else 0)"
  by pat_completeness auto
termination
proof (relation "measures [\<lambda>(b, a). nat \<lceil>1 / a\<rceil>, \<lambda>(b, a). nat \<lceil>a\<rceil>]", goal_cases)
  case 1
  show ?case by simp
next
  case (2 b a)
  then have a: "0 < a" "2 \<le> b" "b \<le> a" by auto
  have "a / b \<le> a / 2" using a by (intro divide_left_mono) auto
  also have "\<dots> \<le> a - 1" using a by simp
  finally have "\<lceil>a / b\<rceil> \<le> \<lceil>a - 1\<rceil>" by (rule ceiling_mono)
  then have lt: "\<lceil>a / b\<rceil> < \<lceil>a\<rceil>" by simp
  have "0 < b / a" "b / a \<le> 1" using a by simp_all
  then have c1: "\<lceil>b / a\<rceil> = 1" by (simp add: ceiling_eq_iff)
  have "0 < 1 / a" "1 / a \<le> 1" using a by simp_all
  then have c2: "\<lceil>1 / a\<rceil> = 1" by (simp add: ceiling_eq_iff)
  have "0 < \<lceil>a\<rceil>" using a by simp
  with lt c1 c2 show ?case by simp
next
  case (3 b a)
  then have a: "0 < a" "2 \<le> b" "a < 1" by auto
  define n where "n = \<lceil>1 / a\<rceil>"
  have "1 < 1 / a" using a by simp
  then have n2: "2 \<le> n" unfolding n_def by linarith
  have "1 / (a * b) \<le> 1 / (a * 2)" using a by (intro divide_left_mono) auto
  also have "\<dots> = (1 / a) / 2" by simp
  also have "\<dots> \<le> of_int n / 2" unfolding n_def by (simp add: divide_right_mono)
  also have "\<dots> \<le> of_int (n - 1)" using n2 by simp
  finally have "1 / (a * b) \<le> of_int (n - 1)" .
  then have "\<lceil>1 / (a * b)\<rceil> \<le> n - 1" by (simp only: ceiling_le_iff)
  then show ?case using n2 a unfolding n_def by simp
qed

declare ilog.simps [simp del]

text \<open>
  The magnitude from which round-to-nearest gives an infinity: halfway between the largest
  binary64 value, \<open>2^1024 - 2^971\<close>, and \<open>2^1024\<close>.
\<close>

definition OVERFLOW_THRESHOLD :: real where
  "OVERFLOW_THRESHOLD = 2 ^ 1024 - 2 ^ 970"

text \<open>
  The binary64 value of an exact result (roundTiesToEven): 53 significant bits, the
  exponent of the leading bit no lower than \<open>-1022\<close> (below it the values are subnormal
  and share the spacing \<open>2 powi -1074\<close>), and an infinity from the threshold on.
  \<open>ulp a\<close> is the spacing of the binary64 values around the magnitude \<open>a\<close>.
\<close>

definition ulp :: "real \<Rightarrow> real" where
  "ulp a = 2 powi (max (ilog 2 a) (- 1022) - 52)"

definition double_of :: "real \<Rightarrow> real" where
  "double_of x = sgn x * (of_int (round_half_even (\<bar>x\<bar> / ulp \<bar>x\<bar>)) * ulp \<bar>x\<bar>)"

definition to_double :: "real \<Rightarrow> number" where
  "to_double x =
     (if OVERFLOW_THRESHOLD \<le> \<bar>x\<bar> then (if 0 < x then PosInf else NegInf)
      else Fin (double_of x))"

text \<open>The operator \<open>*\<close> on numbers.\<close>

fun number_times :: "number \<Rightarrow> number \<Rightarrow> number" where
  "number_times NaN _ = NaN"
| "number_times _ NaN = NaN"
| "number_times (Fin x) (Fin y) = to_double (x * y)"
| "number_times (Fin x) PosInf = (if x = 0 then NaN else if 0 < x then PosInf else NegInf)"
| "number_times (Fin x) NegInf = (if x = 0 then NaN else if 0 < x then NegInf else PosInf)"
| "number_times PosInf (Fin y) = (if y = 0 then NaN else if 0 < y then PosInf else NegInf)"
| "number_times NegInf (Fin y) = (if y = 0 then NaN else if 0 < y then NegInf else PosInf)"
| "number_times PosInf PosInf = PosInf"
| "number_times PosInf NegInf = NegInf"
| "number_times NegInf PosInf = NegInf"
| "number_times NegInf NegInf = PosInf"

text \<open>The comparisons \<open><=\<close> and \<open>>=\<close> on numbers: false as soon as one side is NaN.\<close>

fun number_le :: "number \<Rightarrow> number \<Rightarrow> bool" where
  "number_le NaN _ = False"
| "number_le _ NaN = False"
| "number_le NegInf _ = True"
| "number_le _ PosInf = True"
| "number_le (Fin x) (Fin y) = (x \<le> y)"
| "number_le (Fin x) NegInf = False"
| "number_le PosInf (Fin y) = False"
| "number_le PosInf NegInf = False"

definition number_ge :: "number \<Rightarrow> number \<Rightarrow> bool" where
  "number_ge a b = number_le b a"

text \<open>
  \<open>Math.round\<close>: the nearest integer, a tie going up (\<open>round x = \<lfloor>x + 1/2\<rfloor>\<close>); NaN and
  the infinities are returned as they are.
\<close>

fun Math_round :: "number \<Rightarrow> number" where
  "Math_round (Fin x) = Fin (of_int (round x))"
| "Math_round n = n"

text \<open>\<open>Math.max\<close> of two numbers: NaN if either is.\<close>

definition Math_max :: "number \<Rightarrow> number \<Rightarrow> number" where
  "Math_max a b =
     (if a = NaN \<or> b = NaN then NaN else if number_le a b then b else a)"

subsection \<open>Number to string\<close>

text \<open>The decimal digits of a non-negative integer.\<close>

function digits :: "int \<Rightarrow> string" where
  "digits n =
     (if n < 10 then [''0123456789'' ! nat n]
      else digits (n div 10) @ [''0123456789'' ! nat (n mod 10)])"
  by pat_completeness auto
termination
  by (relation "measure nat") auto

declare digits.simps [simp del]

text \<open>
  The digits of a positive finite number \<open>x\<close>, as ECMAScript's Number::toString asks for
  them: integers \<open>s\<close> and \<open>n\<close> with \<open>s\<close> of \<open>k\<close> decimal digits, \<open>s * 10 powi (n - k)\<close> a real
  that reads back as \<open>x\<close>, and \<open>k\<close> as small as possible. \<open>digit_candidates x k\<close> are those
  of the two \<open>k\<close>-digit integers next to \<open>x\<close>, at its own decimal exponent, that read back
  as \<open>x\<close>; of two, the closer to \<open>x\<close> is taken. The only candidate at the next decimal
  exponent is the power of ten itself, with the single digit 1.
\<close>

definition decimal_exponent :: "real \<Rightarrow> int" where
  "decimal_exponent x = ilog 10 x + 1"

definition digit_unit :: "real \<Rightarrow> nat \<Rightarrow> real" where
  "digit_unit x k = 10 powi (decimal_exponent x - int k)"

definition reads_back :: "real \<Rightarrow> nat \<Rightarrow> int \<Rightarrow> bool" where
  "reads_back x k s \<longleftrightarrow> s < 10 ^ k \<and> to_double (of_int s * digit_unit x k) = Fin x"

definition digit_candidates :: "real \<Rightarrow> nat \<Rightarrow> int list" where
  "digit_candidates x k =
     filter (reads_back x k) (remdups [\<lfloor>x / digit_unit x k\<rfloor>, \<lceil>x / digit_unit x k\<rceil>])"

fun closest_candidate :: "real \<Rightarrow> nat \<Rightarrow> int list \<Rightarrow> int" where
  "closest_candidate x k [s] = s"
| "closest_candidate x k [s, s'] =
     (if \<bar>of_int s' * digit_unit x k - x\<bar> < \<bar>of_int s * digit_unit x k - x\<bar> then s' else s)"
| "closest_candidate x k _ = round (x / digit_unit x k)"

function shortest_from :: "real \<Rightarrow> nat \<Rightarrow> int \<times> int" where
  "shortest_from x k =
     (if 17 \<le> k then (closest_candidate x k [], decimal_exponent x)
      else if digit_candidates x k = [] then shortest_from x (Suc k)
      else (closest_candidate x k (digit_candidates x k), decimal_exponent x))"
  by pat_completeness auto
termination
  by (relation "measure (\<lambda>(x, k). 17 - k)") auto

declare shortest_from.simps [simp del]

definition shortest_digits :: "real \<Rightarrow> int \<times> int" where
  "shortest_digits x =
     (if to_double (10 powi decimal_exponent x) = Fin x then (1, decimal_exponent x + 1)
      else shortest_from x 1)"

function zeros :: "int \<Rightarrow> string" where
  "zeros n = (if n \<le> 0 then [] else CHR ''0'' # zeros (n - 1))"
  by pat_completeness auto
termination
  by (relation "measure nat") auto

declare zeros.simps [simp del]

text \<open>The digits \<open>ds\<close> laid out for the decimal exponent \<open>n\<close>.\<close>

definition format_digits :: "string \<Rightarrow> int \<Rightarrow> string" where
  "format_digits ds n =
     (if int (length ds) \<le> n \<and> n \<le> 21
        then ds @ zeros (n - int (length ds))
      else if 0 < n \<and> n \<le> 21 then take (nat n) ds @ ''.'' @ drop (nat n) ds
      else if - 6 < n \<and> n \<le> 0 then ''0.'' @ zeros (- n) @ ds
      else (if length ds = 1 then ds else take 1 ds @ ''.'' @ drop 1 ds)
           @ ''e'' @ (if 0 \<le> n - 1 then ''+'' else ''-'') @ digits \<bar>n - 1\<bar>)"

definition positive_toString :: "real \<Rightarrow> string" where
  "positive_toString x =
     format_digits (digits (fst (shortest_digits x))) (snd (shortest_digits x))"

text \<open>Number::toString (radix 10), which a template literal applies to a number.\<close>

fun Number_toString :: "number \<Rightarrow> string" where
  "Number_toString NaN = ''NaN''"
| "Number_toString PosInf = ''Infinity''"
| "Number_toString NegInf = ''-Infinity''"
| "Number_toString (Fin x) =
     (if x = 0 then ''0''
      else if x < 0 then ''-'' @ positive_toString (- x)
      else positive_toString x)"

section \<open>The document tree\<close>

text \<open>
  The part of the DOM the program touches: elements with a tag, an accessible label, a
  \<open>className\<close>, attributes, a click handler, the \<open>disabled\<close> property and child nodes, and
  text nodes. A handler is a function of the caller; the model only tells them apart.
\<close>

datatype handler = Noop | Callback nat

datatype node =
    TextNode string
  | Element (tagName: string) (label: string) (className: string)
      (attributes: "(string \<times> string) list") (onclick: "handler option")
      (disabled: bool) (childNodes: "node list")

text \<open>
  An element reference held by the program is the path of child indices from the host's
  root element to it. The program never moves or removes an element it holds, so the path
  names the same element for as long as the tree is only changed by the program. A path
  that leads nowhere stands for an element that is no longer in the tree: writing to it
  changes nothing that can be seen from the root.
\<close>

type_synonym ref = "nat list"

fun node_at :: "node \<Rightarrow> ref \<Rightarrow> node option" where
  "node_at n [] = Some n"
| "node_at (TextNode s) (i # p) = None"
| "node_at (Element t l c a h d kids) (i # p) =
     (if i < length kids then node_at (kids ! i) p else None)"

fun update_at :: "ref \<Rightarrow> (node \<Rightarrow> node) \<Rightarrow> node \<Rightarrow> node" where
  "update_at [] f n = f n"
| "update_at (i # p) f (TextNode s) = TextNode s"
| "update_at (i # p) f (Element t l c a h d kids) =
     Element t l c a h d
       (if i < length kids then kids[i := update_at p f (kids ! i)] else kids)"

subsection \<open>Class selectors\<close>

text \<open>
  \<open>className\<close> is a list of tokens separated by ASCII whitespace; the selector \<open>.c\<close>
  matches an element that has the token \<open>c\<close>.
\<close>

definition is_space :: "char \<Rightarrow> bool" where
  "is_space c \<longleftrightarrow> c \<in> set [CHR '' '', CHR 0x09, CHR 0x0A, CHR 0x0C, CHR 0x0D]"

fun tokens_from :: "string \<Rightarrow> string \<Rightarrow> string list" where
  "tokens_from cur [] = (if cur = [] then [] else [cur])"
| "tokens_from cur (c # cs) =
     (if is_space c then (if cur = [] then [] else [cur]) @ tokens_from [] cs
      else tokens_from (cur @ [c]) cs)"

definition class_tokens :: "string \<Rightarrow> string list" where
  "class_tokens cn = tokens_from [] cn"

fun has_class :: "string \<Rightarrow> node \<Rightarrow> bool" where
  "has_class c (TextNode s) = False"
| "has_class c (Element t l cn a h d kids) = (c \<in> set (class_tokens cn))"

text \<open>
  \<open>root.querySelector('.c')\<close>: the first element in document order (an element before its
  descendants, siblings left to right) among the descendants of the root that has the
  class, or null. \<open>find_first c i ns\<close> searches the nodes \<open>ns\<close>, which are the children
  from index \<open>i\<close> on of their parent.
\<close>

fun find_first :: "string \<Rightarrow> nat \<Rightarrow> node list \<Rightarrow> ref option" where
  "find_first c i [] = None"
| "find_first c i (TextNode s # ns) = find_first c (Suc i) ns"
| "find_first c i (Element t l cn a h d kids # ns) =
     (if c \<in> set (class_tokens cn) then Some [i]
      else case find_first c 0 kids of
             Some p \<Rightarrow> Some (i # p)
           | None \<Rightarrow> find_first c (Suc i) ns)"

fun querySelector :: "string \<Rightarrow> node \<Rightarrow> ref option" where
  "querySelector c (TextNode s) = None"
| "querySelector c (Element t l cn a h d kids) = find_first c 0 kids"

subsection \<open>Properties of an element\<close>

text \<open>
  Reading \<open>textContent\<close> gives the text of all text nodes below the node, in document
  order. Assigning a string to it replaces the children of the element by one text node
  with that string, or by nothing if the string is empty.
\<close>

fun textContent :: "node \<Rightarrow> string" where
  "textContent (TextNode s) = s"
| "textContent (Element t l c a h d kids) = concat (map textContent kids)"

fun set_textContent :: "string \<Rightarrow> node \<Rightarrow> node" where
  "set_textContent s (TextNode s') = TextNode s'"
| "set_textContent s (Element t l c a h d kids) =
     Element t l c a h d (if s = [] then [] else [TextNode s])"

fun set_disabled :: "bool \<Rightarrow> node \<Rightarrow> node" where
  "set_disabled b (TextNode s) = TextNode s"
| "set_disabled b (Element t l c a h d kids) = Element t l c a h b kids"

text \<open>What a test reads from the element a reference names.\<close>

definition text_at :: "node \<Rightarrow> ref \<Rightarrow> string option" where
  "text_at doc p = map_option textContent (node_at doc p)"

fun is_disabled :: "node \<Rightarrow> bool option" where
  "is_disabled (TextNode s) = None"
| "is_disabled (Element t l c a h d kids) = Some d"

definition disabled_at :: "node \<Rightarrow> ref \<Rightarrow> bool option" where
  "disabled_at doc p = Option.bind (node_at doc p) is_disabled"

text \<open>Whether a reference names an element of the tree.\<close>

definition names_element :: "node \<Rightarrow> ref \<Rightarrow> bool" where
  "names_element doc p =
     (case node_at doc p of Some (Element t l c a h d kids) \<Rightarrow> True | _ \<Rightarrow> False)"

text \<open>
  \<open>find_testid v i ns\<close> is the lookup a test makes by \<open>data-testid\<close>: the first element, in
  document order, that carries the attribute with the value \<open>v\<close>.
\<close>

fun find_testid :: "string \<Rightarrow> nat \<Rightarrow> node list \<Rightarrow> ref option" where
  "find_testid v i [] = None"
| "find_testid v i (TextNode s # ns) = find_testid v (Suc i) ns"
| "find_testid v i (Element t l cn a h d kids # ns) =
     (if map_of a ''data-testid'' = Some v then Some [i]
      else case find_testid v 0 kids of
             Some p \<Rightarrow> Some (i # p)
           | None \<Rightarrow> find_testid v (Suc i) ns)"

fun getByTestId :: "string \<Rightarrow> node \<Rightarrow> ref option" where
  "getByTestId v (TextNode s) = None"
| "getByTestId v (Element t l cn a h d kids) = find_testid v 0 kids"

text \<open>The children of a node, whether it is a text node, and \<open>appendChild\<close>.\<close>

fun child_nodes :: "node \<Rightarrow> node list" where
  "child_nodes (TextNode s) = []"
| "child_nodes (Element t l c a h d kids) = kids"

fun is_text :: "node \<Rightarrow> bool" where
  "is_text (TextNode s) = True"
| "is_text (Element t l c a h d kids) = False"

fun append_child :: "node \<Rightarrow> node \<Rightarrow> node" where
  "append_child new (TextNode s) = TextNode s"
| "append_child new (Element t l c a h d kids) = Element t l c a h d (kids @ [new])"

section \<open>The host\<close>

text \<open>
  Modelled from the spec: the class \<open>Controls\<close> (module \<open>./Controls\<close>) is not part of the
  sources at hand. The spec calls it the ControlsHost: it owns a root element
  (\<open>controlsEl\<close>), can create a logical group of controls, and can add a labelled, styled
  element with an activation handler and an icon or markup to a group, returning a handle
  to it; elements are then found in its rendered tree by their style marker.
\<close>

record Controls =
  controlsEl :: node

text \<open>
  Modelled from the spec: \<open>addGroup()\<close> creates a new group in the host and returns its
  handle. The group is a new, last child of the root element.
\<close>

definition addGroup :: "Controls \<Rightarrow> ref \<times> Controls" where
  "addGroup host =
     ([length (child_nodes (controlsEl host))],
      host\<lparr>controlsEl := append_child (Element ''div'' [] [] [] None False []) (controlsEl host)\<rparr>)"

text \<open>
  Modelled from the spec: \<open>add(text, handler, classList, content, tag, parent)\<close> adds to the
  group \<open>parent\<close> an element of the kind \<open>tag\<close> (a button when the caller passes
  \<open>undefined\<close>) with the label, the activation handler, the style classes and the icon or
  markup as its content, and returns its handle. The element is a new, last child of the
  group.
\<close>

definition Controls_add ::
  "Controls \<Rightarrow> string \<Rightarrow> handler option \<Rightarrow> string \<Rightarrow> node list \<Rightarrow> string option \<Rightarrow> ref
     \<Rightarrow> ref \<times> Controls" where
  "Controls_add host text handler classList content tag parent =
     (parent @ [case node_at (controlsEl host) parent of
                  None \<Rightarrow> 0 | Some g \<Rightarrow> length (child_nodes g)],
      host\<lparr>controlsEl :=
        update_at parent
          (append_child
             (Element (case tag of None \<Rightarrow> ''button'' | Some t \<Rightarrow> t) text classList []
                handler False content))
          (controlsEl host)\<rparr>)"

section \<open>Values and errors\<close>

text \<open>
  The values a caller can pass where the program expects a number or the host. A
  \<open>ControlsInstance\<close> is an object made by the class \<open>Controls\<close>; every other object is a
  \<open>PlainObject\<close>.
\<close>

datatype jsvalue =
    Undefined
  | Null
  | Boolean bool
  | Number number
  | String string
  | PlainObject
  | ControlsInstance Controls

text \<open>
  lodash's \<open>isFinite\<close>: the value is of type number and is neither NaN nor an infinity.
  Unlike the global \<open>isFinite\<close> it converts nothing, so a numeric string is not finite.
\<close>

fun isFinite :: "jsvalue \<Rightarrow> bool" where
  "isFinite (Number (Fin x)) = True"
| "isFinite _ = False"

text \<open>The number an arithmetic operator reads from a value of type number.\<close>

fun number_of :: "jsvalue \<Rightarrow> number" where
  "number_of (Number n) = n"
| "number_of _ = NaN"

text \<open>
  A field declared without an initialiser holds \<open>undefined\<close> until it is assigned: \<open>None\<close>.
  A comparison reads \<open>undefined\<close> as NaN.
\<close>

fun field_number :: "number option \<Rightarrow> number" where
  "field_number None = NaN"
| "field_number (Some n) = n"

text \<open>
  What the program throws: \<open>Error(message)\<close> by its own \<open>throw\<close>, and the TypeError of the
  language for a property access on \<open>null\<close> or \<open>undefined\<close>.
\<close>

datatype error = Error string | TypeError

section \<open>ZoomControls\<close>

text \<open>
  Constants of other modules that the class imports: the two icons (markup), the class
  name of a button of a group, and the translation function \<open>__\<close>.
\<close>

record env =
  ICON_ZOOM_IN :: "node list"
  ICON_ZOOM_OUT :: "node list"
  CLASS_BOX_CONTROLS_GROUP_BUTTON :: string
  translate :: "string \<Rightarrow> string"

definition CLASS_ZOOM_CURRENT_SCALE :: string where
  "CLASS_ZOOM_CURRENT_SCALE = ''bp-zoom-current-scale''"

definition CLASS_ZOOM_IN_BUTTON :: string where
  "CLASS_ZOOM_IN_BUTTON = ''bp-zoom-in-btn''"

definition CLASS_ZOOM_OUT_BUTTON :: string where
  "CLASS_ZOOM_OUT_BUTTON = ''bp-zoom-out-btn''"

definition CLASS_ZOOM_BUTTON :: string where
  "CLASS_ZOOM_BUTTON = ''bp-zoom-btn''"

text \<open>
  The markup \<^verbatim>\<open><span data-testid="current-zoom">100%</span>\<close> that \<open>init\<close> gives to the
  scale label, as the nodes it parses to.
\<close>

definition CURRENT_SCALE_MARKUP :: "node list" where
  "CURRENT_SCALE_MARKUP =
     [Element ''span'' [] [] [(''data-testid'', ''current-zoom'')] None False
        [TextNode ''100%'']]"

text \<open>
  The fields of an instance. \<open>this.controlsElement\<close> is the very element
  \<open>controls.controlsEl\<close>, so the tree is kept once, in the host, and \<open>controlsElement\<close>
  reads it there; \<open>update_element\<close> is a write to an element of that tree.
\<close>

record ZoomControls =
  controls :: Controls
  currentScale :: "number option"
  currentScaleElement :: "ref option"
  maxZoom :: "number option"
  minZoom :: "number option"

definition controlsElement :: "ZoomControls \<Rightarrow> node" where
  "controlsElement this = controlsEl (controls this)"

definition update_element :: "ref \<Rightarrow> (node \<Rightarrow> node) \<Rightarrow> ZoomControls \<Rightarrow> ZoomControls" where
  "update_element el f this =
     this\<lparr>controls := (controls this)\<lparr>controlsEl := update_at el f (controlsElement this)\<rparr>\<rparr>"

text \<open>
  The constructor. A falsy value is no instance of \<open>Controls\<close> either, so the two tests of
  the guard reject exactly the values that are not such an instance.
\<close>

fun constructor :: "jsvalue \<Rightarrow> error + ZoomControls" where
  "constructor (ControlsInstance host) =
     Inr \<lparr>controls = host, currentScale = None, currentScaleElement = None,
          maxZoom = None, minZoom = None\<rparr>"
| "constructor _ = Inl (Error ''controls must be an instance of Controls'')"

text \<open>\<open>validateZoom\<close>: a finite number is returned as it is, anything else gives the default.\<close>

definition validateZoom :: "jsvalue \<Rightarrow> number \<Rightarrow> number" where
  "validateZoom zoomValue defaultZoomValue =
     (if isFinite zoomValue then number_of zoomValue else defaultZoomValue)"

text \<open>
  \<open>checkButtonEnablement\<close>: both lookups are made first; each button found then gets its
  \<open>disabled\<close> property, zoom-out before zoom-in.
\<close>

definition checkButtonEnablement :: "ZoomControls \<Rightarrow> ZoomControls" where
  "checkButtonEnablement this =
     (let zoomOutElement = querySelector CLASS_ZOOM_OUT_BUTTON (controlsElement this);
          zoomInElement = querySelector CLASS_ZOOM_IN_BUTTON (controlsElement this);
          this1 = (case zoomOutElement of
                     None \<Rightarrow> this
                   | Some el \<Rightarrow>
                       update_element el
                         (set_disabled
                            (number_le (field_number (currentScale this))
                               (field_number (minZoom this))))
                         this)
      in case zoomInElement of
           None \<Rightarrow> this1
         | Some el \<Rightarrow>
             update_element el
               (set_disabled
                  (number_ge (field_number (currentScale this1))
                     (field_number (maxZoom this1))))
               this1)"

text \<open>
  \<open>setCurrentScale\<close>. The assignment to \<open>textContent\<close> reads \<open>this.currentScaleElement\<close>:
  while that is \<open>undefined\<close> or \<open>null\<close> the access throws a TypeError. The scale has been
  stored by then; the model returns the error alone, not the instance a failed call
  leaves behind.
\<close>

definition setCurrentScale :: "ZoomControls \<Rightarrow> jsvalue \<Rightarrow> error + ZoomControls" where
  "setCurrentScale this scale =
     (if \<not> isFinite scale then Inr this
      else
        let this1 = this\<lparr>currentScale :=
                      Some (Math_round (number_times (number_of scale) (Fin 100)))\<rparr>
        in case currentScaleElement this1 of
             None \<Rightarrow> Inl TypeError
           | Some el \<Rightarrow>
               Inr (checkButtonEnablement
                      (update_element el
                         (set_textContent
                            (Number_toString (field_number (currentScale this1)) @ ''%''))
                         this1)))"

text \<open>
  The options of \<open>init\<close>. A property that is absent or \<open>undefined\<close> takes its default; the
  parameter itself defaults to the empty object when the caller omits it, and
  destructuring \<open>null\<close> throws a TypeError.
\<close>

record options =
  opt_zoomOutClassName :: "string option"
  opt_zoomInClassName :: "string option"
  opt_minZoom :: jsvalue
  opt_maxZoom :: jsvalue
  opt_onZoomIn :: "handler option"
  opt_onZoomOut :: "handler option"

definition no_options :: options where
  "no_options =
     \<lparr>opt_zoomOutClassName = None, opt_zoomInClassName = None, opt_minZoom = Undefined,
      opt_maxZoom = Undefined, opt_onZoomIn = None, opt_onZoomOut = None\<rparr>"

datatype options_arg = OptionsUndefined | OptionsNull | OptionsObject options

text \<open>The value of a destructured property that has a numeric default.\<close>

fun or_default :: "jsvalue \<Rightarrow> number \<Rightarrow> jsvalue" where
  "or_default Undefined d = Number d"
| "or_default v d = v"

text \<open>
  \<open>init\<close>. \<open>init_fields\<close> is its body, run on the options object once the parameter is
  bound: the defaults of the properties, the two bounds, the group and its three controls
  in the host, the lookup of the label, and the first scale update.
\<close>

definition init_fields ::
  "env \<Rightarrow> ZoomControls \<Rightarrow> jsvalue \<Rightarrow> options \<Rightarrow> error + ZoomControls" where
  "init_fields env this currentScale_arg opts =
     (let zoomOutClassName = (case opt_zoomOutClassName opts of None \<Rightarrow> [] | Some c \<Rightarrow> c);
          zoomInClassName = (case opt_zoomInClassName opts of None \<Rightarrow> [] | Some c \<Rightarrow> c);
          minZoom_arg = or_default (opt_minZoom opts) (Fin 0);
          maxZoom_arg = or_default (opt_maxZoom opts) PosInf;
          onZoomIn = (case opt_onZoomIn opts of None \<Rightarrow> Noop | Some f \<Rightarrow> f);
          onZoomOut = (case opt_onZoomOut opts of None \<Rightarrow> Noop | Some f \<Rightarrow> f);
          this1 = this\<lparr>maxZoom :=
                    Some (Math_round (number_times (validateZoom maxZoom_arg PosInf) (Fin 100)))\<rparr>;
          this2 = this1\<lparr>minZoom :=
                    Some (Math_round
                            (number_times (Math_max (validateZoom minZoom_arg (Fin 0)) (Fin 0))
                               (Fin 100)))\<rparr>;
          (groupElement, host1) = addGroup (controls this2);
          (zoomOut, host2) =
             Controls_add host1 (translate env ''zoom_out'') (Some onZoomOut)
               (CLASS_BOX_CONTROLS_GROUP_BUTTON env @ '' '' @ CLASS_ZOOM_BUTTON @ '' ''
                  @ CLASS_ZOOM_OUT_BUTTON @ '' '' @ zoomOutClassName)
               (ICON_ZOOM_OUT env) None groupElement;
          (scaleLabel, host3) =
             Controls_add host2 (translate env ''zoom_current_scale'') None
               CLASS_ZOOM_CURRENT_SCALE CURRENT_SCALE_MARKUP (Some ''div'') groupElement;
          (zoomIn, host4) =
             Controls_add host3 (translate env ''zoom_in'') (Some onZoomIn)
               (CLASS_BOX_CONTROLS_GROUP_BUTTON env @ '' '' @ CLASS_ZOOM_BUTTON @ '' ''
                  @ CLASS_ZOOM_IN_BUTTON @ '' '' @ zoomInClassName)
               (ICON_ZOOM_IN env) None groupElement;
          this3 = this2\<lparr>controls := host4\<rparr>;
          this4 = this3\<lparr>currentScaleElement :=
                    querySelector CLASS_ZOOM_CURRENT_SCALE (controlsElement this3)\<rparr>
      in setCurrentScale this4 currentScale_arg)"

fun init :: "env \<Rightarrow> ZoomControls \<Rightarrow> jsvalue \<Rightarrow> options_arg \<Rightarrow> error + ZoomControls" where
  "init env this currentScale_arg OptionsNull = Inl TypeError"
| "init env this currentScale_arg OptionsUndefined =
     init_fields env this currentScale_arg no_options"
| "init env this currentScale_arg (OptionsObject opts) =
     init_fields env this currentScale_arg opts"

text \<open>
  The numbers \<open>Math.round\<close> can return for a number that is not NaN: the integers and the
  two infinities. \<open>unset_or_whole\<close> is the same for a field that may still be \<open>undefined\<close>.
\<close>

fun whole :: "number \<Rightarrow> bool" where
  "whole (Fin x) = (of_int \<lfloor>x\<rfloor> = x)"
| "whole PosInf = True"
| "whole NegInf = True"
| "whole NaN = False"


text \<open>The options object that \<open>init\<close> destructures.\<close>

fun options_of :: "options_arg \<Rightarrow> options" where
  "options_of (OptionsObject opts) = opts"
| "options_of _ = no_options"

section \<open>A scenario\<close>

text \<open>
  The scenario of the specification: an empty control bar, \<open>init(0.5, {minZoom: 0.25,
  maxZoom: 2})\<close>, then \<open>setCurrentScale(0.25)\<close> and \<open>setCurrentScale(2)\<close>. \<open>scenario_state\<close>
  is the instance after these calls, with the stored scale, the text of the label and the
  \<open>disabled\<close> property of the two buttons left open.
\<close>

definition scenario_env :: env where
  "scenario_env =
     \<lparr>ICON_ZOOM_IN = [TextNode ''+''], ICON_ZOOM_OUT = [TextNode ''-''],
      CLASS_BOX_CONTROLS_GROUP_BUTTON = ''bp-controls-group-btn'', translate = (\<lambda>key. key)\<rparr>"

definition scenario_host :: Controls where
  "scenario_host = \<lparr>controlsEl = Element ''div'' [] ''bp-controls'' [] None False []\<rparr>"

definition scenario_new :: ZoomControls where
  "scenario_new =
     \<lparr>controls = scenario_host, currentScale = None, currentScaleElement = None,
      maxZoom = None, minZoom = None\<rparr>"

definition scenario_options :: options where
  "scenario_options =
     no_options\<lparr>opt_minZoom := Number (Fin (1 / 4)), opt_maxZoom := Number (Fin 2)\<rparr>"

definition scenario_tree :: "string \<Rightarrow> bool \<Rightarrow> bool \<Rightarrow> node" where
  "scenario_tree shown out_disabled in_disabled =
     Element ''div'' [] ''bp-controls'' [] None False
       [Element ''div'' [] [] [] None False
          [Element ''button'' ''zoom_out''
             ''bp-controls-group-btn bp-zoom-btn bp-zoom-out-btn '' [] (Some Noop)
             out_disabled [TextNode ''-''],
           Element ''div'' ''zoom_current_scale'' ''bp-zoom-current-scale'' [] None False
             [TextNode shown],
           Element ''button'' ''zoom_in''
             ''bp-controls-group-btn bp-zoom-btn bp-zoom-in-btn '' [] (Some Noop)
             in_disabled [TextNode ''+'']]]"

definition scenario_state :: "number \<Rightarrow> string \<Rightarrow> bool \<Rightarrow> bool \<Rightarrow> ZoomControls" where
  "scenario_state scale shown out_disabled in_disabled =
     \<lparr>controls = \<lparr>controlsEl = scenario_tree shown out_disabled in_disabled\<rparr>,
      currentScale = Some scale, currentScaleElement = Some [0, 1],
      maxZoom = Some (Fin 200), minZoom = Some (Fin 25)\<rparr>"

text \<open>The instance after \<open>init(NaN, {minZoom: 0.25, maxZoom: 2})\<close> on the empty control bar.\<close>

definition scenario_untouched :: ZoomControls where
  "scenario_untouched =
     \<lparr>controls = \<lparr>controlsEl =
        Element ''div'' [] ''bp-controls'' [] None False
          [Element ''div'' [] [] [] None False
             [Element ''button'' ''zoom_out''
                ''bp-controls-group-btn bp-zoom-btn bp-zoom-out-btn '' [] (Some Noop)
                False [TextNode ''-''],
              Element ''div'' ''zoom_current_scale'' ''bp-zoom-current-scale'' [] None False
                [Element ''span'' [] [] [(''data-testid'', ''current-zoom'')] None False
                   [TextNode ''100%'']],
              Element ''button'' ''zoom_in''
                ''bp-controls-group-btn bp-zoom-btn bp-zoom-in-btn '' [] (Some Noop)
                False [TextNode ''+'']]]\<rparr>,
      currentScale = None, currentScaleElement = Some [0, 1],
      maxZoom = Some (Fin 200), minZoom = Some (Fin 25)\<rparr>"

text \<open>An instance whose control bar holds a single button, of the given class.\<close>

definition lone_button :: "string \<Rightarrow> ZoomControls" where
  "lone_button cls =
     \<lparr>controls = \<lparr>controlsEl = Element ''div'' [] ''bp-controls'' [] None False
                    [Element ''button'' [] cls [] (Some Noop) True []]\<rparr>,
      currentScale = Some (Fin 50), currentScaleElement = None,
      maxZoom = Some (Fin 200), minZoom = Some (Fin 25)\<rparr>"

text \<open>
  A finite scale whose hundredfold is beyond the largest binary64 value, and options with
  a minimum above the maximum.
\<close>

definition huge_scale :: real where
  "huge_scale = 2 ^ 1018"

definition crossed_options :: options where
  "crossed_options = no_options\<lparr>opt_minZoom := Number (Fin 2), opt_maxZoom := Number (Fin 1)\<rparr>"

text \<open>Options that give a maximum only.\<close>

definition maximum_only :: options where
  "maximum_only = no_options\<lparr>opt_maxZoom := Number (Fin 2)\<rparr>"

text \<open>
  Options that give the zoom-out button the class name of the zoom-in button as its extra
  class name, and the instance \<open>init\<close> builds from them at scale 2.
\<close>

definition shared_class_options :: options where
  "shared_class_options =
     no_options\<lparr>opt_zoomOutClassName := Some ''bp-zoom-in-btn'',
                 opt_minZoom := Number (Fin (1 / 4)), opt_maxZoom := Number (Fin 2)\<rparr>"

definition shared_class_state :: ZoomControls where
  "shared_class_state =
     \<lparr>controls = \<lparr>controlsEl =
        Element ''div'' [] ''bp-controls'' [] None False
          [Element ''div'' [] [] [] None False
             [Element ''button'' ''zoom_out''
                ''bp-controls-group-btn bp-zoom-btn bp-zoom-out-btn bp-zoom-in-btn'' []
                (Some Noop) True [TextNode ''-''],
              Element ''div'' ''zoom_current_scale'' ''bp-zoom-current-scale'' [] None False
                [TextNode ''200%''],
              Element ''button'' ''zoom_in''
                ''bp-controls-group-btn bp-zoom-btn bp-zoom-in-btn '' [] (Some Noop)
                False [TextNode ''+'']]]\<rparr>,
      currentScale = Some (Fin 200), currentScaleElement = Some [0, 1],
      maxZoom = Some (Fin 200), minZoom = Some (Fin 25)\<rparr>"

section \<open>Evaluation\<close>

text \<open>
  The recursive equations of \<open>ilog\<close>, \<open>digits\<close>, \<open>zeros\<close> and \<open>shortest_from\<close> are no simp
  rules; they unfold on numerals only, in the lemmas below.
\<close>

lemmas number_eval = to_double_def double_of_def ulp_def OVERFLOW_THRESHOLD_def
  round_half_even_def ilog.simps

lemmas string_eval = digits.simps decimal_exponent_def digit_candidates_def digit_unit_def
  reads_back_def shortest_digits_def positive_toString_def shortest_from.simps
  format_digits_def zeros.simps

lemma to_double_values:
  "to_double 50 = Fin 50"
  "to_double 25 = Fin 25"
  "to_double 200 = Fin 200"
  "to_double 100 = Fin 100"
  "to_double 0 = Fin 0"
  "to_double (- 100) = Fin (- 100)"
  by (simp_all add: number_eval)

lemma toString_values:
  "positive_toString 50 = ''50''"
  "positive_toString 25 = ''25''"
  "positive_toString 200 = ''200''"
  "positive_toString 100 = ''100''"
  by (simp_all add: number_eval string_eval)

lemmas class_names = CLASS_ZOOM_CURRENT_SCALE_def CLASS_ZOOM_IN_BUTTON_def
  CLASS_ZOOM_OUT_BUTTON_def CLASS_ZOOM_BUTTON_def

lemmas program_eval = init_fields_def validateZoom_def setCurrentScale_def
  checkButtonEnablement_def
  update_element_def controlsElement_def addGroup_def Controls_add_def Math_max_def
  number_ge_def class_names CURRENT_SCALE_MARKUP_def class_tokens_def is_space_def
  no_options_def to_double_values toString_values

lemmas scenario_defs = scenario_env_def scenario_host_def scenario_new_def
  scenario_options_def scenario_tree_def scenario_state_def scenario_untouched_def

lemma init_scenario:
  "init scenario_env scenario_new (Number (Fin (1 / 2))) (OptionsObject scenario_options)
     = Inr (scenario_state (Fin 50) ''50%'' False False)"
  by (simp add: program_eval scenario_defs)

lemma lower_bound_scenario:
  "setCurrentScale (scenario_state (Fin 50) ''50%'' False False) (Number (Fin (1 / 4)))
     = Inr (scenario_state (Fin 25) ''25%'' True False)"
  by (simp add: program_eval scenario_defs)

lemma upper_bound_scenario:
  "setCurrentScale (scenario_state (Fin 25) ''25%'' True False) (Number (Fin 2))
     = Inr (scenario_state (Fin 200) ''200%'' False True)"
  by (simp add: program_eval scenario_defs)

lemma huge_scale_overflows: "to_double (huge_scale * 100) = PosInf"
  by (simp add: huge_scale_def to_double_def OVERFLOW_THRESHOLD_def)

lemma init_huge_scale:
  "init scenario_env scenario_new (Number (Fin huge_scale)) OptionsUndefined
     = Inr ((scenario_state PosInf ''Infinity%'' False True)
              \<lparr>maxZoom := Some PosInf, minZoom := Some (Fin 0)\<rparr>)"
  by (simp add: program_eval scenario_defs huge_scale_overflows)

lemma init_crossed_options:
  "init scenario_env scenario_new (Number (Fin (1 / 2))) (OptionsObject crossed_options)
     = Inr ((scenario_state (Fin 50) ''50%'' True False)
              \<lparr>maxZoom := Some (Fin 100), minZoom := Some (Fin 200)\<rparr>)"
  by (simp add: program_eval scenario_defs crossed_options_def)

lemma init_maximum_only:
  "init scenario_env scenario_new (Number (Fin (1 / 2))) (OptionsObject maximum_only)
     = Inr ((scenario_state (Fin 50) ''50%'' False False)\<lparr>minZoom := Some (Fin 0)\<rparr>)"
  by (simp add: program_eval scenario_defs maximum_only_def)



lemma init_shared_class:
  "init scenario_env scenario_new (Number (Fin 2)) (OptionsObject shared_class_options)
     = Inr shared_class_state"
  by (simp add: program_eval scenario_defs shared_class_options_def shared_class_state_def)

lemma init_not_a_number:
  "init scenario_env scenario_new (Number NaN) (OptionsObject scenario_options)
     = Inr scenario_untouched"
  by (simp add: program_eval scenario_defs)

lemma first_update_scenario:
  "setCurrentScale scenario_untouched (Number (Fin (1 / 4)))
     = Inr (scenario_state (Fin 25) ''25%'' True False)"
  by (simp add: program_eval scenario_defs)

section \<open>Facts about numbers\<close>

lemma ilog_bounds:
  "0 < a \<Longrightarrow> 2 \<le> b \<Longrightarrow> b powi (ilog b a) \<le> a \<and> a < b powi (ilog b a + 1)"
proof (induction b a rule: ilog.induct)
  case (1 b a)
  from "1.prems" have b0: "b \<noteq> 0" "0 < b" by simp_all
  show ?case
  proof (cases "b \<le> a")
    case True
    with "1.prems" have e: "ilog b a = ilog b (a / b) + 1"
      by (subst ilog.simps) simp
    from True "1.prems" have "0 < a / b" by simp
    with "1.IH"(1) True "1.prems"
    have ih: "b powi (ilog b (a / b)) \<le> a / b" "a / b < b powi (ilog b (a / b) + 1)"
      by simp_all
    have p1: "b powi (ilog b a) = b powi (ilog b (a / b)) * b"
      using b0 by (simp add: e power_int_add)
    have p2: "b powi (ilog b a + 1) = b powi (ilog b (a / b) + 1) * b"
      using b0 power_int_add [of b "ilog b (a / b) + 1" 1] by (simp add: e)
    from ih(1) b0 have "b powi (ilog b (a / b)) * b \<le> a"
      by (simp add: pos_le_divide_eq)
    moreover from ih(2) b0 have "a < b powi (ilog b (a / b) + 1) * b"
      by (simp add: pos_divide_less_eq)
    ultimately show ?thesis
      by (simp only: p1 p2)
  next
    case False
    show ?thesis
    proof (cases "a < 1")
      case True
      with False "1.prems" have e: "ilog b a = ilog b (a * b) - 1"
        by (subst ilog.simps) simp
      from "1.prems" have "0 < a * b" by simp
      with "1.IH"(2) True False "1.prems"
      have ih: "b powi (ilog b (a * b)) \<le> a * b" "a * b < b powi (ilog b (a * b) + 1)"
        by simp_all
      have p1: "b powi (ilog b a) = b powi (ilog b (a * b)) / b"
        using b0 by (simp add: e power_int_diff)
      have p2: "b powi (ilog b a + 1) = b powi (ilog b (a * b) + 1) / b"
        using b0 power_int_diff [of b "ilog b (a * b) + 1" 1] by (simp add: e)
      from ih(1) b0 have "b powi (ilog b (a * b)) / b \<le> a"
        by (simp add: pos_divide_le_eq)
      moreover from ih(2) b0 have "a < b powi (ilog b (a * b) + 1) / b"
        by (simp add: pos_less_divide_eq)
      ultimately show ?thesis by (simp only: p1 p2)
    next
      case False
      with \<open>\<not> b \<le> a\<close> "1.prems" have e: "ilog b a = 0"
        by (subst ilog.simps) simp
      from False \<open>\<not> b \<le> a\<close> show ?thesis by (simp add: e)
    qed
  qed
qed

lemma ilog_mono:
  assumes "0 < a" "a \<le> a'"
  shows "ilog 2 a \<le> ilog 2 a'"
proof (rule ccontr)
  assume "\<not> ilog 2 a \<le> ilog 2 a'"
  then have "ilog 2 a' + 1 \<le> ilog 2 a" by simp
  then have "(2::real) powi (ilog 2 a' + 1) \<le> 2 powi (ilog 2 a)"
    by (intro power_int_increasing) simp_all
  also have "\<dots> \<le> a" using ilog_bounds [of a 2] assms by simp
  also have "\<dots> \<le> a'" by fact
  also have "\<dots> < 2 powi (ilog 2 a' + 1)" using ilog_bounds [of a' 2] assms by simp
  finally show False by simp
qed

lemma round_half_even_cases:
  "round_half_even t = \<lfloor>t\<rfloor> \<or> round_half_even t = \<lfloor>t\<rfloor> + 1 \<and> of_int \<lfloor>t\<rfloor> < t"
  by (auto simp: round_half_even_def Let_def)

lemma round_half_even_ge: "of_int k \<le> t \<Longrightarrow> k \<le> round_half_even t"
proof -
  assume "of_int k \<le> t"
  then have "k \<le> \<lfloor>t\<rfloor>" by (simp add: le_floor_iff)
  with round_half_even_cases [of t] show ?thesis by auto
qed

lemma round_half_even_le: "t \<le> of_int k \<Longrightarrow> round_half_even t \<le> k"
proof -
  assume le: "t \<le> of_int k"
  from round_half_even_cases [of t] show ?thesis
  proof
    assume "round_half_even t = \<lfloor>t\<rfloor>"
    moreover from le have "\<lfloor>t\<rfloor> \<le> k" by (simp add: floor_le_iff)
    ultimately show ?thesis by simp
  next
    assume a: "round_half_even t = \<lfloor>t\<rfloor> + 1 \<and> of_int \<lfloor>t\<rfloor> < t"
    with le have "of_int \<lfloor>t\<rfloor> < (of_int k :: real)" by simp
    then have "\<lfloor>t\<rfloor> < k" by simp
    with a show ?thesis by simp
  qed
qed

lemma round_half_even_mono:
  assumes "s \<le> t"
  shows "round_half_even s \<le> round_half_even t"
proof (cases "\<lfloor>s\<rfloor> = \<lfloor>t\<rfloor>")
  case True
  with assms show ?thesis
    by (auto simp: round_half_even_def Let_def)
next
  case False
  with assms have "\<lfloor>s\<rfloor> < \<lfloor>t\<rfloor>" using floor_mono [OF assms] by simp
  then have "\<lfloor>s\<rfloor> + 1 \<le> \<lfloor>t\<rfloor>" by simp
  moreover have "round_half_even s \<le> \<lfloor>s\<rfloor> + 1"
    using round_half_even_cases [of s] by auto
  moreover have "\<lfloor>t\<rfloor> \<le> round_half_even t"
    using round_half_even_cases [of t] by auto
  ultimately show ?thesis by simp
qed

lemma ulp_pos: "0 < ulp a"
  by (simp add: ulp_def)

lemma double_of_nonneg: "0 \<le> x \<Longrightarrow> 0 \<le> double_of x"
proof -
  assume "0 \<le> x"
  then have "0 \<le> \<bar>x\<bar> / ulp \<bar>x\<bar>" using ulp_pos [of "\<bar>x\<bar>"] by simp
  then have "0 \<le> round_half_even (\<bar>x\<bar> / ulp \<bar>x\<bar>)"
    using round_half_even_ge [of 0] by simp
  with \<open>0 \<le> x\<close> ulp_pos [of "\<bar>x\<bar>"] show ?thesis
    by (simp add: double_of_def sgn_if)
qed

lemma double_of_minus: "double_of (- x) = - double_of x"
  by (simp add: double_of_def sgn_if)

lemma double_of_mono_pos:
  assumes "0 < x" "x \<le> y"
  shows "double_of x \<le> double_of y"
proof -
  define ex where "ex = max (ilog 2 x) (- 1022)"
  define ey where "ey = max (ilog 2 y) (- 1022)"
  have y: "0 < y" using assms by simp
  have ux: "ulp x = 2 powi (ex - 52)" and uy: "ulp y = 2 powi (ey - 52)"
    by (simp_all add: ulp_def ex_def ey_def)
  have dx: "double_of x = of_int (round_half_even (x / ulp x)) * ulp x"
    using assms by (simp add: double_of_def)
  have dy: "double_of y = of_int (round_half_even (y / ulp y)) * ulp y"
    using y by (simp add: double_of_def)
  have le: "ex \<le> ey" using ilog_mono [OF assms] by (simp add: ex_def ey_def)
  show ?thesis
  proof (cases "ex = ey")
    case True
    then have u: "ulp x = ulp y" by (simp add: ux uy)
    have "x / ulp y \<le> y / ulp y" using assms ulp_pos [of y] by (simp add: divide_right_mono)
    from round_half_even_mono [OF this] ulp_pos [of y] show ?thesis
      by (simp add: dx dy u)
  next
    case False
    with le have lt: "ex < ey" by simp
    then have "ey = ilog 2 y" by (auto simp: ex_def ey_def max_def split: if_splits)
    with ilog_bounds [of y 2] y have ylow: "2 powi ey \<le> y" by simp
    have "x < 2 powi (ilog 2 x + 1)" using ilog_bounds [of x 2] assms by simp
    also have "\<dots> \<le> 2 powi (ex + 1)"
      by (intro power_int_increasing) (simp_all add: ex_def)
    finally have xhigh: "x < 2 powi (ex + 1)" .
    have "x / ulp x \<le> 2 powi (ex + 1) / 2 powi (ex - 52)"
      using xhigh by (simp add: ux divide_right_mono)
    also have "\<dots> = 2 powi 53"
      using power_int_diff [of "2::real" "ex + 1" "ex - 52"] by simp
    finally have "x / ulp x \<le> of_int (2 ^ 53)" by simp
    then have "round_half_even (x / ulp x) \<le> 2 ^ 53" by (rule round_half_even_le)
    then have "(of_int (round_half_even (x / ulp x)) :: real) \<le> of_int (2 ^ 53)"
      by (simp only: of_int_le_iff)
    then have "double_of x \<le> of_int (2 ^ 53) * ulp x"
      using ulp_pos [of x] by (simp add: dx)
    also have "\<dots> = 2 powi (ex + 1)"
      using power_int_add [of "2::real" 53 "ex - 52"] by (simp add: ux add.commute)
    also have "\<dots> \<le> 2 powi ey" using lt by (intro power_int_increasing) simp_all
    finally have a: "double_of x \<le> 2 powi ey" .
    have "(2::real) powi 52 = 2 powi ey / 2 powi (ey - 52)"
      using power_int_diff [of "2::real" ey "ey - 52"] by simp
    also have "\<dots> \<le> y / ulp y" using ylow by (simp add: uy divide_right_mono)
    finally have "of_int (2 ^ 52) \<le> y / ulp y" by simp
    then have "2 ^ 52 \<le> round_half_even (y / ulp y)" by (rule round_half_even_ge)
    then have "(of_int (2 ^ 52) :: real) \<le> of_int (round_half_even (y / ulp y))"
      by (simp only: of_int_le_iff)
    then have "of_int (2 ^ 52) * ulp y \<le> double_of y"
      using ulp_pos [of y] by (simp add: dy)
    moreover have "of_int (2 ^ 52) * ulp y = 2 powi ey"
      using power_int_add [of "2::real" 52 "ey - 52"] by (simp add: uy)
    ultimately have b: "2 powi ey \<le> double_of y" by simp
    from a b show ?thesis by simp
  qed
qed

lemma double_of_mono:
  assumes "x \<le> y"
  shows "double_of x \<le> double_of y"
proof (cases "0 < x")
  case True
  from True assms show ?thesis by (rule double_of_mono_pos)
next
  case False
  then have x: "x \<le> 0" by simp
  show ?thesis
  proof (cases "0 \<le> y")
    case True
    from x have "0 \<le> double_of (- x)" by (intro double_of_nonneg) simp
    then have "double_of x \<le> 0" by (simp add: double_of_minus)
    also from True have "0 \<le> double_of y" by (rule double_of_nonneg)
    finally show ?thesis .
  next
    case False
    then have "0 < - y" "- y \<le> - x" using assms by simp_all
    from double_of_mono_pos [OF this] show ?thesis by (simp add: double_of_minus)
  qed
qed

lemma to_double_mono:
  assumes "x \<le> y"
  shows "number_le (to_double x) (to_double y)"
  using assms double_of_mono [OF assms]
  by (auto simp: to_double_def OVERFLOW_THRESHOLD_def abs_if split: if_splits)

lemma Math_round_mono:
  assumes "number_le a b"
  shows "number_le (Math_round a) (Math_round b)"
  using assms by (cases a; cases b) (simp_all add: round_mono)

lemma percent_mono:
  assumes "x \<le> y"
  shows "number_le (Math_round (number_times (Fin x) (Fin 100)))
           (Math_round (number_times (Fin y) (Fin 100)))"
proof -
  from assms have "x * 100 \<le> y * 100" by simp
  from Math_round_mono [OF to_double_mono [OF this]] show ?thesis by simp
qed



section \<open>Facts about the document tree\<close>

lemma node_at_update_at_same:
  "node_at (update_at p f t) p = map_option f (node_at t p)"
proof (induction p arbitrary: t)
  case Nil
  show ?case by simp
next
  case (Cons i p)
  show ?case by (cases t) (simp_all add: Cons.IH)
qed

lemma textContent_set_disabled [simp]: "textContent (set_disabled b n) = textContent n"
  by (cases n) simp_all

lemma child_nodes_set_disabled [simp]: "child_nodes (set_disabled b n) = child_nodes n"
  by (cases n) simp_all

lemma textContent_update_disabled [simp]:
  "textContent (update_at q (set_disabled b) t) = textContent t"
proof (induction q arbitrary: t)
  case Nil
  show ?case by simp
next
  case (Cons i q)
  show ?case
  proof (cases t)
    case (TextNode s)
    then show ?thesis by simp
  next
    case (Element tg l c a h d kids)
    have "map textContent (kids[i := update_at q (set_disabled b) (kids ! i)]) = map textContent kids"
      by (cases "i < length kids") (simp_all add: map_update Cons.IH list_update_same_conv list_update_beyond)
    with Element show ?thesis by simp
  qed
qed

lemma node_at_set_disabled_below:
  "p \<noteq> [] \<Longrightarrow> node_at (set_disabled b n) p = node_at n p"
  by (cases n; cases p) simp_all

lemma text_at_update_disabled [simp]:
  "text_at (update_at q (set_disabled b) t) p = text_at t p"
proof (induction q arbitrary: t p)
  case Nil
  show ?case
    by (cases p) (simp_all add: text_at_def node_at_set_disabled_below)
next
  case (Cons i q)
  show ?case
  proof (cases t)
    case (TextNode s)
    then show ?thesis by simp
  next
    case (Element tg l c a h d kids)
    show ?thesis
    proof (cases p)
      case Nil
      have "textContent (update_at (i # q) (set_disabled b) t) = textContent t"
        by (rule textContent_update_disabled)
      with Nil show ?thesis by (simp add: text_at_def)
    next
      case (Cons j p')
      with Element Cons.IH [of "kids ! i" p'] show ?thesis
        by (auto simp: text_at_def nth_list_update)
    qed
  qed
qed

lemma is_disabled_set_disabled:
  "is_disabled (set_disabled b n) = map_option (\<lambda>_. b) (is_disabled n)"
  by (cases n) simp_all

lemma is_disabled_update_below:
  "q \<noteq> [] \<Longrightarrow> is_disabled (update_at q f n) = is_disabled n"
  by (cases n; cases q) simp_all

lemma disabled_at_update_disabled:
  "disabled_at (update_at q (set_disabled b) t) p =
     (if p = q then map_option (\<lambda>_. b) (disabled_at t p) else disabled_at t p)"
proof (induction q arbitrary: t p)
  case Nil
  show ?case
    by (cases p) (simp_all add: disabled_at_def node_at_set_disabled_below is_disabled_set_disabled)
next
  case (Cons i q)
  show ?case
  proof (cases t)
    case (TextNode s)
    then show ?thesis by (cases p) (simp_all add: disabled_at_def)
  next
    case (Element tg l c a h d kids)
    show ?thesis
    proof (cases p)
      case Nil
      with Element show ?thesis by (simp add: disabled_at_def)
    next
      case (Cons j p')
      with Element Cons.IH [of "kids ! i" p'] show ?thesis
        by (auto simp: disabled_at_def nth_list_update)
    qed
  qed
qed

lemma find_first_set_disabled_head:
  "find_first c j (set_disabled b n # ns) = find_first c j (n # ns)"
  by (cases n) simp_all

lemma find_first_set_disabled_nth:
  "find_first c j (ns[i := set_disabled b (ns ! i)]) = find_first c j ns"
proof (induction ns arbitrary: i j)
  case Nil
  show ?case by simp
next
  case (Cons n ns)
  show ?case
  proof (cases i)
    case 0
    then show ?thesis by (simp add: find_first_set_disabled_head)
  next
    case (Suc i')
    then show ?thesis by (cases n) (simp_all add: Cons.IH split: option.split)
  qed
qed

lemma find_first_update_disabled:
  "find_first c j (ns[i := update_at p (set_disabled b) (ns ! i)]) = find_first c j ns"
proof (induction p arbitrary: ns i j)
  case Nil
  show ?case by (simp add: find_first_set_disabled_nth)
next
  case (Cons k p)
  note outer = Cons.IH
  show ?case
  proof (induction ns arbitrary: i j)
    case Nil
    show ?case by simp
  next
    case (Cons n ns)
    show ?case
    proof (cases i)
      case 0
      then show ?thesis by (cases n) (simp_all add: outer)
    next
      case (Suc i')
      then show ?thesis by (cases n) (simp_all add: Cons.IH split: option.split)
    qed
  qed
qed

lemma querySelector_update_disabled [simp]:
  "querySelector c (update_at q (set_disabled b) t) = querySelector c t"
proof (cases t)
  case (TextNode s)
  then show ?thesis by (cases q) simp_all
next
  case (Element tg l cn a h d kids)
  then show ?thesis by (cases q) (simp_all add: find_first_update_disabled)
qed

lemma find_first_sound:
  "find_first c j ns = Some p \<Longrightarrow>
     \<exists>i r n. p = (j + i) # r \<and> i < length ns \<and> node_at (ns ! i) r = Some n \<and> has_class c n"
proof (induction c j ns arbitrary: p rule: find_first.induct)
  case (1 c i)
  then show ?case by simp
next
  case (2 c i s ns)
  then obtain k r n where "p = (Suc i + k) # r" "k < length ns" "node_at (ns ! k) r = Some n" "has_class c n"
    by fastforce
  then show ?case by (intro exI [of _ "Suc k"] exI [of _ r] exI [of _ n]) simp
next
  case (3 c i t l cn a h d kids ns)
  show ?case
  proof (cases "c \<in> set (class_tokens cn)")
    case True
    with 3 have "p = [i]" by simp
    with True show ?thesis
      by (intro exI [of _ 0] exI [of _ "[]"] exI [of _ "Element t l cn a h d kids"]) simp
  next
    case False
    show ?thesis
    proof (cases "find_first c 0 kids")
      case None
      with False 3 obtain k r n where "p = (Suc i + k) # r" "k < length ns" "node_at (ns ! k) r = Some n" "has_class c n"
        by fastforce
      then show ?thesis by (intro exI [of _ "Suc k"] exI [of _ r] exI [of _ n]) simp
    next
      case (Some q)
      with False 3 have p: "p = i # q" by simp
      from 3(1) [OF False Some] obtain k r n where "q = (0 + k) # r" "k < length kids" "node_at (kids ! k) r = Some n" "has_class c n"
        by blast
      with p show ?thesis
        by (intro exI [of _ 0] exI [of _ q] exI [of _ n]) simp
    qed
  qed
qed

lemma querySelector_sound:
  assumes "querySelector c t = Some p"
  shows "\<exists>n. node_at t p = Some n \<and> has_class c n"
proof (cases t)
  case (TextNode s)
  with assms show ?thesis by simp
next
  case (Element tg l cn a h d kids)
  with assms have "find_first c 0 kids = Some p" by simp
  from find_first_sound [OF this] Element show ?thesis by auto
qed

lemma querySelector_disabled_at:
  assumes "querySelector c t = Some p"
  shows "\<exists>d. disabled_at t p = Some d"
proof -
  from querySelector_sound [OF assms] obtain n where n: "node_at t p = Some n" "has_class c n"
    by blast
  then show ?thesis by (cases n) (simp_all add: disabled_at_def)
qed

lemma text_at_set_textContent:
  assumes "names_element doc el"
  shows "text_at (update_at el (set_textContent s) doc) el = Some s"
proof -
  from assms obtain t l c a h d kids where "node_at doc el = Some (Element t l c a h d kids)"
    by (auto simp: names_element_def split: option.splits node.splits)
  then show ?thesis
    by (simp add: text_at_def node_at_update_at_same)
qed

lemma find_first_index:
  "(find_first c i ns = None) = (find_first c j ns = None)"
proof (induction ns arbitrary: i j)
  case Nil
  show ?case by simp
next
  case (Cons n ns)
  show ?case
    using Cons.IH [of "Suc i" "Suc j"] by (cases n) (simp_all split: option.split)
qed

lemma find_first_append:
  assumes "find_first c j ys \<noteq> None"
  shows "find_first c i (xs @ ys) \<noteq> None"
proof (induction xs arbitrary: i)
  case Nil
  from assms find_first_index [of c i ys j] show ?case by simp
next
  case (Cons x xs)
  show ?case
    using Cons.IH [of "Suc i"] by (cases x) (simp_all split: option.split)
qed

lemma update_at_text [simp]: "is_text n \<Longrightarrow> update_at q (set_disabled b) n = n"
  by (cases n; cases q) simp_all

lemma child_nodes_update_disabled_text:
  assumes "list_all is_text (child_nodes n)"
  shows "child_nodes (update_at q (set_disabled b) n) = child_nodes n"
proof (cases n)
  case (TextNode s)
  then show ?thesis by (cases q) simp_all
next
  case (Element t l c a h d kids)
  show ?thesis
  proof (cases q)
    case Nil
    with Element show ?thesis by simp
  next
    case (Cons i q')
    have "kids[i := update_at q' (set_disabled b) (kids ! i)] = kids" if "i < length kids"
    proof -
      from assms Element that have "is_text (kids ! i)" by (simp add: list_all_length)
      then show ?thesis by simp
    qed
    with Element Cons show ?thesis by simp
  qed
qed

lemma children_at_update_disabled:
  assumes "map_option child_nodes (node_at doc p) = Some ks" and "list_all is_text ks"
  shows "map_option child_nodes (node_at (update_at q (set_disabled b) doc) p) = Some ks"
  using assms
proof (induction q arbitrary: doc p)
  case Nil
  then show ?case
    by (cases p) (auto simp: node_at_set_disabled_below)
next
  case (Cons i q)
  show ?case
  proof (cases p)
    case Nil
    with Cons.prems child_nodes_update_disabled_text [of doc "i # q" b] show ?thesis
      by auto
  next
    case p: (Cons j p')
    show ?thesis
    proof (cases doc)
      case (TextNode s)
      with Cons.prems p show ?thesis by simp
    next
      case (Element t l c a h d kids)
      with Cons.prems p Cons.IH [of "kids ! i" p'] show ?thesis
        by (auto simp: nth_list_update split: if_splits)
    qed
  qed
qed

section \<open>Facts about the methods\<close>

lemma fields_checkButtonEnablement [simp]:
  "currentScale (checkButtonEnablement this) = currentScale this"
  "currentScaleElement (checkButtonEnablement this) = currentScaleElement this"
  "minZoom (checkButtonEnablement this) = minZoom this"
  "maxZoom (checkButtonEnablement this) = maxZoom this"
  by (simp_all add: checkButtonEnablement_def update_element_def Let_def split: option.split)

lemma fields_update_element [simp]:
  "currentScale (update_element el f this) = currentScale this"
  "currentScaleElement (update_element el f this) = currentScaleElement this"
  "minZoom (update_element el f this) = minZoom this"
  "maxZoom (update_element el f this) = maxZoom this"
  "controlsElement (update_element el f this) = update_at el f (controlsElement this)"
  by (simp_all add: update_element_def controlsElement_def)

lemma controlsElement_checkButtonEnablement:
  "controlsElement (checkButtonEnablement this) =
     (case querySelector CLASS_ZOOM_IN_BUTTON (controlsElement this) of
        None \<Rightarrow> (\<lambda>t. t)
      | Some el \<Rightarrow>
          update_at el
            (set_disabled
               (number_ge (field_number (currentScale this)) (field_number (maxZoom this)))))
       ((case querySelector CLASS_ZOOM_OUT_BUTTON (controlsElement this) of
           None \<Rightarrow> (\<lambda>t. t)
         | Some el \<Rightarrow>
             update_at el
               (set_disabled
                  (number_le (field_number (currentScale this))
                     (field_number (minZoom this)))))
          (controlsElement this))"
  by (simp add: checkButtonEnablement_def Let_def split: option.split)

lemma text_at_checkButtonEnablement [simp]:
  "text_at (controlsElement (checkButtonEnablement this)) p = text_at (controlsElement this) p"
  by (simp add: controlsElement_checkButtonEnablement split: option.split)


lemma zoomIn_after_check:
  assumes "querySelector CLASS_ZOOM_IN_BUTTON (controlsElement this) = Some el"
  shows "disabled_at (controlsElement (checkButtonEnablement this)) el =
           Some (number_ge (field_number (currentScale this)) (field_number (maxZoom this)))"
proof -
  let ?t = "case querySelector CLASS_ZOOM_OUT_BUTTON (controlsElement this) of
              None \<Rightarrow> controlsElement this
            | Some el' \<Rightarrow>
                update_at el'
                  (set_disabled
                     (number_le (field_number (currentScale this))
                        (field_number (minZoom this))))
                  (controlsElement this)"
  let ?g = "number_ge (field_number (currentScale this)) (field_number (maxZoom this))"
  have "querySelector CLASS_ZOOM_IN_BUTTON ?t = Some el"
    using assms by (simp split: option.split)
  from querySelector_disabled_at [OF this] obtain d where d: "disabled_at ?t el = Some d" ..
  have ce: "controlsElement (checkButtonEnablement this) = update_at el (set_disabled ?g) ?t"
    using assms by (simp add: controlsElement_checkButtonEnablement split: option.split)
  have "disabled_at (controlsElement (checkButtonEnablement this)) el =
      map_option (\<lambda>_. ?g) (disabled_at ?t el)"
    unfolding ce by (simp add: disabled_at_update_disabled)
  with d show ?thesis by simp
qed

lemma zoomOut_after_check:
  assumes "querySelector CLASS_ZOOM_OUT_BUTTON (controlsElement this) = Some el"
    and "querySelector CLASS_ZOOM_IN_BUTTON (controlsElement this) \<noteq> Some el"
  shows "disabled_at (controlsElement (checkButtonEnablement this)) el =
           Some (number_le (field_number (currentScale this)) (field_number (minZoom this)))"
proof -
  from querySelector_disabled_at [OF assms(1)] obtain d
    where "disabled_at (controlsElement this) el = Some d" ..
  then show ?thesis
    using assms
    by (auto simp: controlsElement_checkButtonEnablement disabled_at_update_disabled
          split: option.splits)
qed

lemma setCurrentScale_finite:
  assumes "currentScaleElement this = Some el"
  shows "setCurrentScale this (Number (Fin x)) =
           Inr (checkButtonEnablement
                  (update_element el
                     (set_textContent
                        (Number_toString (Math_round (number_times (Fin x) (Fin 100))) @ ''%''))
                     (this\<lparr>currentScale :=
                        Some (Math_round (number_times (Fin x) (Fin 100)))\<rparr>)))"
  using assms by (simp add: setCurrentScale_def Let_def)

lemma setCurrentScale_keeps_bounds:
  assumes "setCurrentScale this scale = Inr this'"
  shows "minZoom this' = minZoom this \<and> maxZoom this' = maxZoom this"
  using assms
  by (auto simp: setCurrentScale_def Let_def split: if_splits option.splits)

lemma init_fields_bounds:
  assumes "init_fields env this scale opts = Inr this'"
  shows "maxZoom this' =
           Some (Math_round
                   (number_times (validateZoom (or_default (opt_maxZoom opts) PosInf) PosInf)
                      (Fin 100)))"
    and "minZoom this' =
           Some (Math_round
                   (number_times
                      (Math_max (validateZoom (or_default (opt_minZoom opts) (Fin 0)) (Fin 0))
                         (Fin 0))
                      (Fin 100)))"
  using assms
  by (auto simp: init_fields_def Let_def split: prod.splits
        dest!: setCurrentScale_keeps_bounds)

lemma init_is_init_fields:
  assumes "init env this scale args = Inr this'"
  shows "init_fields env this scale (options_of args) = Inr this'"
  using assms by (cases args) simp_all

lemma validateZoom_min:
  "validateZoom (or_default v (Fin 0)) (Fin 0) = (if isFinite v then number_of v else Fin 0)"
  by (cases v rule: isFinite.cases) (simp_all add: validateZoom_def)

lemma validateZoom_max:
  "validateZoom (or_default v PosInf) PosInf = (if isFinite v then number_of v else PosInf)"
  by (cases v rule: isFinite.cases) (simp_all add: validateZoom_def)

lemma label_has_its_class: "CLASS_ZOOM_CURRENT_SCALE \<in> set (class_tokens CLASS_ZOOM_CURRENT_SCALE)"
  by (simp add: CLASS_ZOOM_CURRENT_SCALE_def class_tokens_def is_space_def)

lemma class_tokens_Nil [simp]: "class_tokens [] = []"
  by (simp add: class_tokens_def)

lemma currentScaleElement_setCurrentScale:
  assumes "setCurrentScale this scale = Inr this'"
  shows "currentScaleElement this' = currentScaleElement this"
  using assms
  by (auto simp: setCurrentScale_def Let_def split: if_splits option.splits)

lemma init_caches_label:
  assumes "init env this scale args = Inr this'"
    and "names_element (controlsElement this) []"
  shows "currentScaleElement this' \<noteq> None"
proof -
  from assms(2) obtain t l c a h d kids
    where root: "controlsEl (controls this) = Element t l c a h d kids"
    by (auto simp: names_element_def controlsElement_def split: node.splits)
  have found: "find_first CLASS_ZOOM_CURRENT_SCALE 0
      (kids @ [Element ''div'' [] [] [] None False
                 [zo, Element ''div'' lbl CLASS_ZOOM_CURRENT_SCALE [] None False content, zi]])
      \<noteq> None" for zo zi lbl content
    by (rule find_first_append [where j = 0])
      (cases zo, simp_all add: label_has_its_class split: option.split)
  from init_is_init_fields [OF assms(1)] obtain mid
    where run: "setCurrentScale mid scale = Inr this'"
      and cached: "currentScaleElement mid \<noteq> None"
    using found
    by (auto simp: init_fields_def Let_def addGroup_def Controls_add_def controlsElement_def
          root nth_append split: prod.splits)
  from currentScaleElement_setCurrentScale [OF run] cached show ?thesis by simp
qed

lemma children_at_checkButtonEnablement:
  assumes "map_option child_nodes (node_at (controlsElement this) p) = Some ks"
    and "list_all is_text ks"
  shows "map_option child_nodes (node_at (controlsElement (checkButtonEnablement this)) p)
           = Some ks"
proof -
  have step: "map_option child_nodes
      (node_at ((case q of None \<Rightarrow> (\<lambda>t. t) | Some el \<Rightarrow> update_at el (set_disabled b)) doc) p)
      = Some ks"
    if "map_option child_nodes (node_at doc p) = Some ks" for q b doc
    using that assms(2) by (cases q) (simp_all add: children_at_update_disabled)
  show ?thesis
    unfolding controlsElement_checkButtonEnablement
    by (rule step, rule step, rule assms(1))
qed

text \<open>
  After every scale update that goes through with a finite scale, the only child of the
  label is a text node: whatever markup the label held is gone.
\<close>

lemma label_holds_bare_text:
  assumes "currentScaleElement this = Some el"
    and "names_element (controlsElement this) el"
    and "setCurrentScale this (Number (Fin x)) = Inr this'"
  shows "map_option child_nodes (node_at (controlsElement this') el) =
           Some [TextNode
                   (Number_toString (Math_round (number_times (Fin x) (Fin 100))) @ ''%'')]"
proof -
  let ?s = "Number_toString (Math_round (number_times (Fin x) (Fin 100))) @ ''%''"
  let ?mid = "update_element el (set_textContent ?s)
                (this\<lparr>currentScale := Some (Math_round (number_times (Fin x) (Fin 100)))\<rparr>)"
  from assms(2) obtain t l c a h d kids
    where "node_at (controlsElement this) el = Some (Element t l c a h d kids)"
    by (auto simp: names_element_def split: option.splits node.splits)
  then have "map_option child_nodes (node_at (controlsElement ?mid) el) = Some [TextNode ?s]"
    by (simp add: node_at_update_at_same controlsElement_def update_element_def)
  then have "map_option child_nodes
      (node_at (controlsElement (checkButtonEnablement ?mid)) el) = Some [TextNode ?s]"
    by (rule children_at_checkButtonEnablement) simp
  with assms(3) setCurrentScale_finite [OF assms(1), of x] show ?thesis by simp
qed

section \<open>The claims\<close>

subsection \<open>Scale update\<close>

text \<open>
  C1. For a finite number \<open>x\<close>, on an instance whose label reference names an element of
  the tree, \<open>setCurrentScale(x)\<close> returns normally; the stored scale is
  \<open>Math.round(x * 100)\<close>, an integer unless the product overflows; the text of the label
  is that number followed by a percent sign; and the state it leaves is the one the
  enablement check produces from the state with the new scale and text.
\<close>

theorem setCurrentScale_stores_and_shows:
  assumes "currentScaleElement this = Some el"
    and "names_element (controlsElement this) el"
  shows "\<exists>this'. setCurrentScale this (Number (Fin x)) = Inr this'
           \<and> currentScale this' = Some (Math_round (number_times (Fin x) (Fin 100)))
           \<and> (\<bar>x * 100\<bar> < OVERFLOW_THRESHOLD \<longrightarrow>
                currentScale this' = Some (Fin (of_int (round (double_of (x * 100))))))
           \<and> text_at (controlsElement this') el =
                Some (Number_toString (Math_round (number_times (Fin x) (Fin 100))) @ ''%'')
           \<and> this' =
                checkButtonEnablement
                  (update_element el
                     (set_textContent
                        (Number_toString (Math_round (number_times (Fin x) (Fin 100))) @ ''%''))
                     (this\<lparr>currentScale :=
                        Some (Math_round (number_times (Fin x) (Fin 100)))\<rparr>))"
proof -
  let ?n = "Math_round (number_times (Fin x) (Fin 100))"
  let ?mid = "update_element el (set_textContent (Number_toString ?n @ ''%''))
                (this\<lparr>currentScale := Some ?n\<rparr>)"
  have run: "setCurrentScale this (Number (Fin x)) = Inr (checkButtonEnablement ?mid)"
    by (rule setCurrentScale_finite [OF assms(1)])
  have "controlsElement (this\<lparr>currentScale := Some ?n\<rparr>) = controlsElement this"
    by (simp add: controlsElement_def)
  with assms(2) have shown: "text_at (controlsElement ?mid) el = Some (Number_toString ?n @ ''%'')"
    by (simp add: text_at_set_textContent)
  have whole: "\<bar>x * 100\<bar> < OVERFLOW_THRESHOLD \<longrightarrow>
      ?n = Fin (of_int (round (double_of (x * 100))))"
    by (simp add: to_double_def)
  from run shown whole show ?thesis by simp
qed

theorem setCurrentScale_stores_and_shows_witness:
  "currentScaleElement (scenario_state (Fin 50) ''50%'' False False) = Some [0, 1]
   \<and> names_element (controlsElement (scenario_state (Fin 50) ''50%'' False False)) [0, 1]
   \<and> \<bar>(1 / 4) * 100\<bar> < OVERFLOW_THRESHOLD
   \<and> setCurrentScale (scenario_state (Fin 50) ''50%'' False False) (Number (Fin (1 / 4)))
       = Inr (scenario_state (Fin 25) ''25%'' True False)
   \<and> currentScale (scenario_state (Fin 25) ''25%'' True False) = Some (Fin 25)
   \<and> text_at (controlsElement (scenario_state (Fin 25) ''25%'' True False)) [0, 1]
       = Some ''25%''"
proof -
  have h1: "currentScaleElement (scenario_state (Fin 50) ''50%'' False False) = Some [0, 1]"
    by (simp add: scenario_state_def)
  have h2: "names_element (controlsElement (scenario_state (Fin 50) ''50%'' False False)) [0, 1]"
    by (simp add: names_element_def controlsElement_def scenario_defs)
  have h3: "\<bar>(1 / 4) * 100\<bar> < OVERFLOW_THRESHOLD"
    by (simp add: OVERFLOW_THRESHOLD_def)
  from setCurrentScale_stores_and_shows [OF h1 h2, of "1 / 4"] obtain this'
    where run: "setCurrentScale (scenario_state (Fin 50) ''50%'' False False)
                  (Number (Fin (1 / 4))) = Inr this'"
      and stored: "currentScale this' = Some (Math_round (number_times (Fin (1 / 4)) (Fin 100)))"
      and shown: "text_at (controlsElement this') [0, 1] =
                    Some (Number_toString (Math_round (number_times (Fin (1 / 4)) (Fin 100)))
                          @ ''%'')"
    by blast
  from run have "this' = scenario_state (Fin 25) ''25%'' True False"
    by (simp add: lower_bound_scenario)
  with run stored shown h1 h2 h3 show ?thesis
    by (simp add: to_double_values toString_values)
qed

subsection \<open>Button enablement\<close>



text \<open>
  C2 as stated fails: \<open>init(2, {minZoom: 0.25, maxZoom: 2, zoomOutClassName: 'bp-zoom-in-btn'})\<close>
  gives the first button both class names, so both lookups find it and the check writes
  it twice, last by the rule of the zoom-in button. At scale 200, above the minimum 25,
  the element found as the zoom-out button is disabled, and the button added as zoom-in
  stays enabled although the scale is at the maximum 200.
\<close>

theorem shared_class_breaks_enablement:
  "init scenario_env scenario_new (Number (Fin 2)) (OptionsObject shared_class_options)
     = Inr shared_class_state
   \<and> currentScale shared_class_state = Some (Fin 200)
   \<and> minZoom shared_class_state = Some (Fin 25)
   \<and> maxZoom shared_class_state = Some (Fin 200)
   \<and> querySelector CLASS_ZOOM_OUT_BUTTON (controlsElement shared_class_state) = Some [0, 0]
   \<and> querySelector CLASS_ZOOM_IN_BUTTON (controlsElement shared_class_state) = Some [0, 0]
   \<and> disabled_at (controlsElement shared_class_state) [0, 0] = Some True
   \<and> \<not> number_le (Fin 200) (Fin 25)
   \<and> map_option label (node_at (controlsElement shared_class_state) [0, 2]) = Some ''zoom_in''
   \<and> disabled_at (controlsElement shared_class_state) [0, 2] = Some False
   \<and> number_ge (Fin 200) (Fin 200)"
  using init_shared_class
  by (simp add: shared_class_state_def controlsElement_def disabled_at_def class_names
        class_tokens_def is_space_def number_ge_def)

subsection \<open>Bounds stored by init\<close>

text \<open>
  C3, as amended. After \<open>init\<close>: a finite \<open>minZoom\<close> is stored as
  \<open>Math.round(Math.max(minZoom, 0) * 100)\<close>, a missing or non-finite one as 0; a finite
  \<open>maxZoom\<close> is stored as \<open>Math.round(maxZoom * 100)\<close>, a missing or non-finite one as
  positive infinity, and then the enablement check enables the zoom-in button it finds
  whenever the stored scale is finite.
\<close>

theorem init_stores_bounds:
  assumes "init env this scale args = Inr this'"
  shows "(\<forall>m. opt_minZoom (options_of args) = Number (Fin m) \<longrightarrow>
            minZoom this' =
              Some (Math_round (number_times (Math_max (Fin m) (Fin 0)) (Fin 100))))
       \<and> (\<not> isFinite (opt_minZoom (options_of args)) \<longrightarrow> minZoom this' = Some (Fin 0))
       \<and> (\<forall>m. opt_maxZoom (options_of args) = Number (Fin m) \<longrightarrow>
            maxZoom this' = Some (Math_round (number_times (Fin m) (Fin 100))))
       \<and> (\<not> isFinite (opt_maxZoom (options_of args)) \<longrightarrow>
            maxZoom this' = Some PosInf
            \<and> (\<forall>that x el.
                  maxZoom that = maxZoom this' \<and> currentScale that = Some (Fin x)
                  \<and> querySelector CLASS_ZOOM_IN_BUTTON (controlsElement that) = Some el \<longrightarrow>
                  disabled_at (controlsElement (checkButtonEnablement that)) el = Some False))"
proof -
  note b = init_fields_bounds [OF init_is_init_fields [OF assms]]
  have unbounded: "disabled_at (controlsElement (checkButtonEnablement that)) el = Some False"
    if "maxZoom that = Some PosInf" "currentScale that = Some (Fin x)"
      "querySelector CLASS_ZOOM_IN_BUTTON (controlsElement that) = Some el" for that x el
    using zoomIn_after_check [OF that(3)] that(1,2) by (simp add: number_ge_def)
  have zero: "Math_round (number_times (Math_max (Fin 0) (Fin 0)) (Fin 100)) = Fin 0"
    by (simp add: Math_max_def to_double_values)
  show ?thesis
  proof (intro conjI allI impI)
    fix m assume "opt_minZoom (options_of args) = Number (Fin m)"
    then show "minZoom this' =
        Some (Math_round (number_times (Math_max (Fin m) (Fin 0)) (Fin 100)))"
      by (simp add: b(2) validateZoom_def)
  next
    assume "\<not> isFinite (opt_minZoom (options_of args))"
    then show "minZoom this' = Some (Fin 0)"
      using zero by (simp add: b(2) validateZoom_min)
  next
    fix m assume "opt_maxZoom (options_of args) = Number (Fin m)"
    then show "maxZoom this' = Some (Math_round (number_times (Fin m) (Fin 100)))"
      by (simp add: b(1) validateZoom_def)
  next
    assume "\<not> isFinite (opt_maxZoom (options_of args))"
    then show "maxZoom this' = Some PosInf"
      by (simp add: b(1) validateZoom_max)
  next
    fix that x el
    assume "\<not> isFinite (opt_maxZoom (options_of args))"
      and "maxZoom that = maxZoom this' \<and> currentScale that = Some (Fin x)
           \<and> querySelector CLASS_ZOOM_IN_BUTTON (controlsElement that) = Some el"
    moreover from this(1) have "maxZoom this' = Some PosInf"
      by (simp add: b(1) validateZoom_max)
    ultimately show "disabled_at (controlsElement (checkButtonEnablement that)) el = Some False"
      using unbounded [of that x el] by simp
  qed
qed

theorem init_stores_bounds_witness:
  "init scenario_env scenario_new (Number (Fin (1 / 2))) (OptionsObject scenario_options)
     = Inr (scenario_state (Fin 50) ''50%'' False False)
   \<and> opt_minZoom (options_of (OptionsObject scenario_options)) = Number (Fin (1 / 4))
   \<and> opt_maxZoom (options_of (OptionsObject scenario_options)) = Number (Fin 2)
   \<and> minZoom (scenario_state (Fin 50) ''50%'' False False) = Some (Fin 25)
   \<and> maxZoom (scenario_state (Fin 50) ''50%'' False False) = Some (Fin 200)
   \<and> init scenario_env scenario_new (Number (Fin huge_scale)) OptionsUndefined
       = Inr ((scenario_state PosInf ''Infinity%'' False True)
                \<lparr>maxZoom := Some PosInf, minZoom := Some (Fin 0)\<rparr>)
   \<and> \<not> isFinite (opt_minZoom (options_of OptionsUndefined))
   \<and> \<not> isFinite (opt_maxZoom (options_of OptionsUndefined))
   \<and> minZoom ((scenario_state PosInf ''Infinity%'' False True)
                \<lparr>maxZoom := Some PosInf, minZoom := Some (Fin 0)\<rparr>) = Some (Fin 0)
   \<and> maxZoom ((scenario_state PosInf ''Infinity%'' False True)
                \<lparr>maxZoom := Some PosInf, minZoom := Some (Fin 0)\<rparr>) = Some PosInf
   \<and> currentScale ((scenario_state (Fin 200) ''200%'' True True)\<lparr>maxZoom := Some PosInf\<rparr>)
       = Some (Fin 200)
   \<and> querySelector CLASS_ZOOM_IN_BUTTON
        (controlsElement ((scenario_state (Fin 200) ''200%'' True True)\<lparr>maxZoom := Some PosInf\<rparr>))
       = Some [0, 2]
   \<and> disabled_at
        (controlsElement
           (checkButtonEnablement
              ((scenario_state (Fin 200) ''200%'' True True)\<lparr>maxZoom := Some PosInf\<rparr>)))
        [0, 2] = Some False"
proof -
  let ?h = "(scenario_state PosInf ''Infinity%'' False True)
              \<lparr>maxZoom := Some PosInf, minZoom := Some (Fin 0)\<rparr>"
  let ?t = "(scenario_state (Fin 200) ''200%'' True True)\<lparr>maxZoom := Some PosInf\<rparr>"
  have o: "opt_minZoom (options_of (OptionsObject scenario_options)) = Number (Fin (1 / 4))"
    "opt_maxZoom (options_of (OptionsObject scenario_options)) = Number (Fin 2)"
    "\<not> isFinite (opt_minZoom (options_of OptionsUndefined))"
    "\<not> isFinite (opt_maxZoom (options_of OptionsUndefined))"
    by (simp_all add: scenario_options_def no_options_def)
  have t: "maxZoom ?t = maxZoom ?h" "currentScale ?t = Some (Fin 200)"
    "querySelector CLASS_ZOOM_IN_BUTTON (controlsElement ?t) = Some [0, 2]"
    by (simp_all add: controlsElement_def class_names class_tokens_def is_space_def scenario_defs)
  from init_stores_bounds [OF init_scenario] o(1,2)
  have "minZoom (scenario_state (Fin 50) ''50%'' False False)
          = Some (Math_round (number_times (Math_max (Fin (1 / 4)) (Fin 0)) (Fin 100)))"
    "maxZoom (scenario_state (Fin 50) ''50%'' False False)
          = Some (Math_round (number_times (Fin 2) (Fin 100)))"
    by blast+
  then have a: "minZoom (scenario_state (Fin 50) ''50%'' False False) = Some (Fin 25)"
    "maxZoom (scenario_state (Fin 50) ''50%'' False False) = Some (Fin 200)"
    by (simp_all add: Math_max_def to_double_values)
  from init_stores_bounds [OF init_huge_scale] o(3,4)
  have b: "minZoom ?h = Some (Fin 0)" "maxZoom ?h = Some PosInf"
    "\<forall>that x el.
       maxZoom that = maxZoom ?h \<and> currentScale that = Some (Fin x)
       \<and> querySelector CLASS_ZOOM_IN_BUTTON (controlsElement that) = Some el \<longrightarrow>
       disabled_at (controlsElement (checkButtonEnablement that)) el = Some False"
    by blast+
  from b(3) t have c: "disabled_at (controlsElement (checkButtonEnablement ?t)) [0, 2] = Some False"
    by blast
  from init_scenario init_huge_scale o a b(1,2) t(2,3) c show ?thesis by blast
qed

text \<open>
  C3 as stated fails in its last part: without \<open>maxZoom\<close> and with the finite scale
  \<open>2^1018\<close>, whose hundredfold overflows, the stored scale is positive infinity, which is
  at the unbounded maximum, and the zoom-in button is disabled.
\<close>

theorem zoom_in_disabled_without_maxZoom:
  "isFinite (Number (Fin (2 ^ 1018)))
   \<and> init scenario_env scenario_new (Number (Fin (2 ^ 1018))) OptionsUndefined
       = Inr ((scenario_state PosInf ''Infinity%'' False True)
                \<lparr>maxZoom := Some PosInf, minZoom := Some (Fin 0)\<rparr>)
   \<and> maxZoom ((scenario_state PosInf ''Infinity%'' False True)
                \<lparr>maxZoom := Some PosInf, minZoom := Some (Fin 0)\<rparr>) = Some PosInf
   \<and> querySelector CLASS_ZOOM_IN_BUTTON
        (controlsElement ((scenario_state PosInf ''Infinity%'' False True)
                            \<lparr>maxZoom := Some PosInf, minZoom := Some (Fin 0)\<rparr>))
       = Some [0, 2]
   \<and> disabled_at
        (controlsElement ((scenario_state PosInf ''Infinity%'' False True)
                            \<lparr>maxZoom := Some PosInf, minZoom := Some (Fin 0)\<rparr>))
        [0, 2] = Some True"
proof -
  have "querySelector CLASS_ZOOM_IN_BUTTON
          (controlsElement ((scenario_state PosInf ''Infinity%'' False True)
                              \<lparr>maxZoom := Some PosInf, minZoom := Some (Fin 0)\<rparr>))
        = Some [0, 2]"
    "disabled_at
        (controlsElement ((scenario_state PosInf ''Infinity%'' False True)
                            \<lparr>maxZoom := Some PosInf, minZoom := Some (Fin 0)\<rparr>))
        [0, 2] = Some True"
    by (simp_all add: controlsElement_def disabled_at_def class_names class_tokens_def
          is_space_def scenario_defs)
  with init_huge_scale [unfolded huge_scale_def] show ?thesis by simp
qed

subsection \<open>Invalid scale\<close>

text \<open>
  C4. A scale that is not a finite number (NaN, an infinity, or a value of another type,
  a numeric string included) makes \<open>setCurrentScale\<close> return normally with the instance
  as it was: the stored scale, the label and the buttons are untouched, also on an
  instance whose label has not been cached yet.
\<close>

theorem setCurrentScale_ignores_non_finite:
  assumes "\<not> isFinite scale"
  shows "setCurrentScale this scale = Inr this"
  using assms by (simp add: setCurrentScale_def)

theorem setCurrentScale_ignores_non_finite_witness:
  "\<not> isFinite (Number NaN) \<and> \<not> isFinite (Number PosInf) \<and> \<not> isFinite (Number NegInf)
   \<and> \<not> isFinite (String ''1.5'') \<and> \<not> isFinite Undefined
   \<and> setCurrentScale (scenario_state (Fin 50) ''50%'' False False) (Number NaN)
       = Inr (scenario_state (Fin 50) ''50%'' False False)
   \<and> setCurrentScale (scenario_state (Fin 50) ''50%'' False False) (Number PosInf)
       = Inr (scenario_state (Fin 50) ''50%'' False False)
   \<and> setCurrentScale (scenario_state (Fin 50) ''50%'' False False) (Number NegInf)
       = Inr (scenario_state (Fin 50) ''50%'' False False)
   \<and> setCurrentScale (scenario_state (Fin 50) ''50%'' False False) (String ''1.5'')
       = Inr (scenario_state (Fin 50) ''50%'' False False)
   \<and> setCurrentScale scenario_new Undefined = Inr scenario_new"
proof -
  have h: "\<not> isFinite (Number NaN)" "\<not> isFinite (Number PosInf)" "\<not> isFinite (Number NegInf)"
    "\<not> isFinite (String ''1.5'')" "\<not> isFinite Undefined"
    by simp_all
  from h setCurrentScale_ignores_non_finite [OF h(1)] setCurrentScale_ignores_non_finite [OF h(2)]
    setCurrentScale_ignores_non_finite [OF h(3)] setCurrentScale_ignores_non_finite [OF h(4)]
    setCurrentScale_ignores_non_finite [OF h(5)]
  show ?thesis by blast
qed

subsection \<open>Bounds after init\<close>

text \<open>
  C5, as amended. The two bounds are left as they are by every call of
  \<open>setCurrentScale\<close>. \<open>init\<close> stores them without comparing them: the stored minimum is
  at or below the stored maximum when the options give finite bounds with
  \<open>max(minZoom, 0) \<le> maxZoom\<close> (a missing or non-finite \<open>minZoom\<close> counting as 0), and
  when \<open>maxZoom\<close> is missing or not finite.
\<close>

theorem bounds_fixed_by_init:
  "(setCurrentScale this scale = Inr this' \<longrightarrow>
      minZoom this' = minZoom this \<and> maxZoom this' = maxZoom this)
   \<and> (init env that scale' args = Inr that'
        \<and> opt_minZoom (options_of args) = Number (Fin m)
        \<and> opt_maxZoom (options_of args) = Number (Fin M) \<and> max m 0 \<le> M \<longrightarrow>
        number_le (field_number (minZoom that')) (field_number (maxZoom that')))
   \<and> (init env that scale' args = Inr that'
        \<and> \<not> isFinite (opt_minZoom (options_of args))
        \<and> opt_maxZoom (options_of args) = Number (Fin M) \<and> 0 \<le> M \<longrightarrow>
        number_le (field_number (minZoom that')) (field_number (maxZoom that')))
   \<and> (init env that scale' args = Inr that' \<and> \<not> isFinite (opt_maxZoom (options_of args)) \<longrightarrow>
        number_le (field_number (minZoom that')) (field_number (maxZoom that')))"
proof (intro conjI impI)
  assume "setCurrentScale this scale = Inr this'"
  then show "minZoom this' = minZoom this" "maxZoom this' = maxZoom this"
    by (simp_all add: setCurrentScale_keeps_bounds)
next
  assume a: "init env that scale' args = Inr that'
        \<and> opt_minZoom (options_of args) = Number (Fin m)
        \<and> opt_maxZoom (options_of args) = Number (Fin M) \<and> max m 0 \<le> M"
  note b = init_fields_bounds [OF init_is_init_fields [of env that scale' args that']]
  from a have "minZoom that' = Some (Math_round (number_times (Fin (max m 0)) (Fin 100)))"
    by (simp add: b(2) validateZoom_def Math_max_def max_def)
  moreover from a have "maxZoom that' = Some (Math_round (number_times (Fin M) (Fin 100)))"
    by (simp add: b(1) validateZoom_def)
  moreover from a have "max m 0 \<le> M" by simp
  ultimately show "number_le (field_number (minZoom that')) (field_number (maxZoom that'))"
    using percent_mono [of "max m 0" M] by simp
next
  assume a: "init env that scale' args = Inr that'
        \<and> \<not> isFinite (opt_minZoom (options_of args))
        \<and> opt_maxZoom (options_of args) = Number (Fin M) \<and> 0 \<le> M"
  note b = init_fields_bounds [OF init_is_init_fields [of env that scale' args that']]
  from a have "minZoom that' = Some (Math_round (number_times (Fin 0) (Fin 100)))"
    by (simp add: b(2) validateZoom_min Math_max_def)
  moreover from a have "maxZoom that' = Some (Math_round (number_times (Fin M) (Fin 100)))"
    by (simp add: b(1) validateZoom_def)
  moreover from a have "0 \<le> M" by simp
  ultimately show "number_le (field_number (minZoom that')) (field_number (maxZoom that'))"
    using percent_mono [of 0 M] by simp
next
  assume a: "init env that scale' args = Inr that' \<and> \<not> isFinite (opt_maxZoom (options_of args))"
  note b = init_fields_bounds [OF init_is_init_fields [of env that scale' args that']]
  from a have mx: "maxZoom that' = Some PosInf"
    by (simp add: b(1) validateZoom_max)
  have "\<exists>x. Math_max
      (validateZoom (or_default (opt_minZoom (options_of args)) (Fin 0)) (Fin 0)) (Fin 0) = Fin x"
    by (cases "opt_minZoom (options_of args)" rule: isFinite.cases)
      (auto simp: validateZoom_def Math_max_def)
  then obtain x where "Math_max
      (validateZoom (or_default (opt_minZoom (options_of args)) (Fin 0)) (Fin 0)) (Fin 0) = Fin x" ..
  with a have "minZoom that' = Some (Math_round (to_double (x * 100)))"
    by (simp add: b(2))
  then have "field_number (minZoom that') \<noteq> NaN"
    by (simp add: to_double_def)
  with mx show "number_le (field_number (minZoom that')) (field_number (maxZoom that'))"
    by (cases "field_number (minZoom that')") simp_all
qed

theorem bounds_fixed_by_init_witness:
  "setCurrentScale (scenario_state (Fin 50) ''50%'' False False) (Number (Fin (1 / 4)))
     = Inr (scenario_state (Fin 25) ''25%'' True False)
   \<and> minZoom (scenario_state (Fin 25) ''25%'' True False)
       = minZoom (scenario_state (Fin 50) ''50%'' False False)
   \<and> maxZoom (scenario_state (Fin 25) ''25%'' True False)
       = maxZoom (scenario_state (Fin 50) ''50%'' False False)
   \<and> init scenario_env scenario_new (Number (Fin (1 / 2))) (OptionsObject scenario_options)
       = Inr (scenario_state (Fin 50) ''50%'' False False)
   \<and> opt_minZoom (options_of (OptionsObject scenario_options)) = Number (Fin (1 / 4))
   \<and> opt_maxZoom (options_of (OptionsObject scenario_options)) = Number (Fin 2)
   \<and> max (1 / 4) 0 \<le> (2 :: real)
   \<and> number_le (field_number (minZoom (scenario_state (Fin 50) ''50%'' False False)))
        (field_number (maxZoom (scenario_state (Fin 50) ''50%'' False False)))
   \<and> init scenario_env scenario_new (Number (Fin (1 / 2))) (OptionsObject maximum_only)
       = Inr ((scenario_state (Fin 50) ''50%'' False False)\<lparr>minZoom := Some (Fin 0)\<rparr>)
   \<and> \<not> isFinite (opt_minZoom (options_of (OptionsObject maximum_only)))
   \<and> opt_maxZoom (options_of (OptionsObject maximum_only)) = Number (Fin 2)
   \<and> number_le
        (field_number
           (minZoom ((scenario_state (Fin 50) ''50%'' False False)\<lparr>minZoom := Some (Fin 0)\<rparr>)))
        (field_number
           (maxZoom ((scenario_state (Fin 50) ''50%'' False False)\<lparr>minZoom := Some (Fin 0)\<rparr>)))
   \<and> init scenario_env scenario_new (Number (Fin huge_scale)) OptionsUndefined
       = Inr ((scenario_state PosInf ''Infinity%'' False True)
                \<lparr>maxZoom := Some PosInf, minZoom := Some (Fin 0)\<rparr>)
   \<and> \<not> isFinite (opt_maxZoom (options_of OptionsUndefined))
   \<and> number_le
        (field_number (minZoom ((scenario_state PosInf ''Infinity%'' False True)
                                  \<lparr>maxZoom := Some PosInf, minZoom := Some (Fin 0)\<rparr>)))
        (field_number (maxZoom ((scenario_state PosInf ''Infinity%'' False True)
                                  \<lparr>maxZoom := Some PosInf, minZoom := Some (Fin 0)\<rparr>)))"
proof -
  let ?s = "scenario_state (Fin 50) ''50%'' False False"
  let ?s' = "scenario_state (Fin 25) ''25%'' True False"
  let ?h = "(scenario_state PosInf ''Infinity%'' False True)
              \<lparr>maxZoom := Some PosInf, minZoom := Some (Fin 0)\<rparr>"
  let ?z = "(scenario_state (Fin 50) ''50%'' False False)\<lparr>minZoom := Some (Fin 0)\<rparr>"
  have o: "opt_minZoom (options_of (OptionsObject scenario_options)) = Number (Fin (1 / 4))"
    "opt_maxZoom (options_of (OptionsObject scenario_options)) = Number (Fin 2)"
    "max (1 / 4) 0 \<le> (2 :: real)"
    "\<not> isFinite (opt_maxZoom (options_of OptionsUndefined))"
    by (simp_all add: scenario_options_def no_options_def)
  from bounds_fixed_by_init
         [where this = ?s and scale = "Number (Fin (1 / 4))" and this' = ?s']
       lower_bound_scenario
  have a: "minZoom ?s' = minZoom ?s \<and> maxZoom ?s' = maxZoom ?s"
    by blast
  from bounds_fixed_by_init
         [where env = scenario_env and that = scenario_new and scale' = "Number (Fin (1 / 2))"
            and args = "OptionsObject scenario_options" and that' = ?s and m = "1 / 4"
            and M = 2]
       init_scenario o(1,2,3)
  have b: "number_le (field_number (minZoom ?s)) (field_number (maxZoom ?s))"
    by blast
  from bounds_fixed_by_init
         [where env = scenario_env and that = scenario_new
            and scale' = "Number (Fin huge_scale)" and args = OptionsUndefined and that' = ?h]
       init_huge_scale o(4)
  have c: "number_le (field_number (minZoom ?h)) (field_number (maxZoom ?h))"
    by blast
  have o': "\<not> isFinite (opt_minZoom (options_of (OptionsObject maximum_only)))"
    "opt_maxZoom (options_of (OptionsObject maximum_only)) = Number (Fin 2)"
    "(0 :: real) \<le> 2"
    by (simp_all add: maximum_only_def no_options_def)
  from bounds_fixed_by_init
         [where env = scenario_env and that = scenario_new and scale' = "Number (Fin (1 / 2))"
            and args = "OptionsObject maximum_only" and that' = ?z and M = 2]
       init_maximum_only o'
  have d: "number_le (field_number (minZoom ?z)) (field_number (maxZoom ?z))"
    by blast
  from lower_bound_scenario init_scenario init_huge_scale init_maximum_only o o'(1,2) a b c d
  show ?thesis by blast
qed

text \<open>
  C5 as stated fails in its first part: \<open>init(0.5, {minZoom: 2, maxZoom: 1})\<close> stores the
  minimum 200 and the maximum 100, both finite.
\<close>

theorem minimum_above_maximum:
  "init scenario_env scenario_new (Number (Fin (1 / 2))) (OptionsObject crossed_options)
     = Inr ((scenario_state (Fin 50) ''50%'' True False)
              \<lparr>maxZoom := Some (Fin 100), minZoom := Some (Fin 200)\<rparr>)
   \<and> opt_minZoom crossed_options = Number (Fin 2)
   \<and> opt_maxZoom crossed_options = Number (Fin 1)
   \<and> minZoom ((scenario_state (Fin 50) ''50%'' True False)
                \<lparr>maxZoom := Some (Fin 100), minZoom := Some (Fin 200)\<rparr>) = Some (Fin 200)
   \<and> maxZoom ((scenario_state (Fin 50) ''50%'' True False)
                \<lparr>maxZoom := Some (Fin 100), minZoom := Some (Fin 200)\<rparr>) = Some (Fin 100)
   \<and> \<not> number_le (Fin 200) (Fin 100)"
  using init_crossed_options by (simp add: crossed_options_def)

subsection \<open>The stored scale\<close>




subsection \<open>Construction\<close>

text \<open>
  C7. The constructor throws \<open>Error('controls must be an instance of Controls')\<close> for
  every value that is not an instance of \<open>Controls\<close>, \<open>null\<close> and a plain object among
  them. For an instance it returns a \<open>ZoomControls\<close> that holds the host, unchanged, and
  whose \<open>controlsElement\<close> is the root element of the host; the other fields are still
  \<open>undefined\<close>.
\<close>

theorem constructor_requires_Controls:
  "(isl (constructor v) \<longleftrightarrow> (\<forall>host. v \<noteq> ControlsInstance host))
   \<and> ((\<forall>host. v \<noteq> ControlsInstance host) \<longrightarrow>
        constructor v = Inl (Error ''controls must be an instance of Controls''))
   \<and> (\<forall>host this. constructor v = Inr this \<and> v = ControlsInstance host \<longrightarrow>
        controls this = host \<and> controlsElement this = controlsEl host
        \<and> currentScale this = None \<and> currentScaleElement this = None
        \<and> minZoom this = None \<and> maxZoom this = None)"
  by (cases v) (auto simp: controlsElement_def)

theorem constructor_requires_Controls_witness:
  "constructor Null = Inl (Error ''controls must be an instance of Controls'')
   \<and> constructor PlainObject = Inl (Error ''controls must be an instance of Controls'')
   \<and> constructor (ControlsInstance scenario_host) = Inr scenario_new
   \<and> controls scenario_new = scenario_host
   \<and> controlsElement scenario_new = controlsEl scenario_host
   \<and> currentScale scenario_new = None \<and> currentScaleElement scenario_new = None
   \<and> minZoom scenario_new = None \<and> maxZoom scenario_new = None"
proof -
  have n: "\<forall>host. Null \<noteq> ControlsInstance host" "\<forall>host. PlainObject \<noteq> ControlsInstance host"
    by simp_all
  have c: "constructor (ControlsInstance scenario_host) = Inr scenario_new"
    by (simp add: scenario_new_def)
  from constructor_requires_Controls [of Null] n(1)
  have a: "constructor Null = Inl (Error ''controls must be an instance of Controls'')"
    by blast
  from constructor_requires_Controls [of PlainObject] n(2)
  have b: "constructor PlainObject = Inl (Error ''controls must be an instance of Controls'')"
    by blast
  from constructor_requires_Controls [of "ControlsInstance scenario_host"] c
  have "controls scenario_new = scenario_host \<and> controlsElement scenario_new = controlsEl scenario_host
        \<and> currentScale scenario_new = None \<and> currentScaleElement scenario_new = None
        \<and> minZoom scenario_new = None \<and> maxZoom scenario_new = None"
    by blast
  with a b c show ?thesis by blast
qed

subsection \<open>Test marker of the label\<close>

text \<open>
  C8 does not hold of the code. \<open>init\<close> gives the label the markup
  \<^verbatim>\<open><span data-testid="current-zoom">100%</span>\<close>, and while no finite scale has been set
  a lookup by that test id finds the inner node, with the text \<open>100%\<close>. But
  \<open>setCurrentScale\<close> assigns \<open>textContent\<close> of the label itself, the element of class
  \<open>bp-zoom-current-scale\<close>, which replaces the span by a bare text node: after \<open>init\<close> with
  a finite scale, and after the first scale update that goes through, the lookup finds
  nothing.
\<close>

theorem test_marker_lost_on_update:
  "init scenario_env scenario_new (Number NaN) (OptionsObject scenario_options)
     = Inr scenario_untouched
   \<and> getByTestId ''current-zoom'' (controlsElement scenario_untouched) = Some [0, 1, 0]
   \<and> text_at (controlsElement scenario_untouched) [0, 1, 0] = Some ''100%''
   \<and> setCurrentScale scenario_untouched (Number (Fin (1 / 4)))
       = Inr (scenario_state (Fin 25) ''25%'' True False)
   \<and> getByTestId ''current-zoom'' (controlsElement (scenario_state (Fin 25) ''25%'' True False))
       = None
   \<and> init scenario_env scenario_new (Number (Fin (1 / 2))) (OptionsObject scenario_options)
       = Inr (scenario_state (Fin 50) ''50%'' False False)
   \<and> getByTestId ''current-zoom'' (controlsElement (scenario_state (Fin 50) ''50%'' False False))
       = None
   \<and> map_option child_nodes
        (node_at (controlsElement (scenario_state (Fin 50) ''50%'' False False)) [0, 1])
       = Some [TextNode ''50%'']"
  using init_not_a_number first_update_scenario init_scenario
  by (simp add: text_at_def controlsElement_def scenario_defs)

subsection \<open>Missing buttons\<close>

text \<open>
  C9. When the lookup of the zoom-out button finds nothing and that of the zoom-in button
  finds an element, the enablement check sets the \<open>disabled\<close> property of that element to
  whether the stored scale is at or above the stored maximum, and leaves the \<open>disabled\<close>
  property of every other element as it was; the other way round, it sets that of the
  zoom-out button found to whether the stored scale is at or below the stored minimum;
  when it finds neither, it changes nothing. It never changes a text. A missing button
  raises no error: a scale update with a finite scale returns normally whenever the label
  is cached, whatever the lookups of the buttons find.
\<close>

theorem missing_button_is_skipped:
  "(querySelector CLASS_ZOOM_OUT_BUTTON (controlsElement this) = None
    \<and> querySelector CLASS_ZOOM_IN_BUTTON (controlsElement this) = Some el \<longrightarrow>
      disabled_at (controlsElement (checkButtonEnablement this)) el =
        Some (number_ge (field_number (currentScale this)) (field_number (maxZoom this)))
      \<and> (\<forall>p. p \<noteq> el \<longrightarrow>
            disabled_at (controlsElement (checkButtonEnablement this)) p =
              disabled_at (controlsElement this) p)
      \<and> checkButtonEnablement this =
          update_element el
            (set_disabled
               (number_ge (field_number (currentScale this)) (field_number (maxZoom this))))
            this)
   \<and> (querySelector CLASS_ZOOM_IN_BUTTON (controlsElement this) = None
      \<and> querySelector CLASS_ZOOM_OUT_BUTTON (controlsElement this) = Some el \<longrightarrow>
      disabled_at (controlsElement (checkButtonEnablement this)) el =
        Some (number_le (field_number (currentScale this)) (field_number (minZoom this)))
      \<and> (\<forall>p. p \<noteq> el \<longrightarrow>
            disabled_at (controlsElement (checkButtonEnablement this)) p =
              disabled_at (controlsElement this) p)
      \<and> checkButtonEnablement this =
          update_element el
            (set_disabled
               (number_le (field_number (currentScale this)) (field_number (minZoom this))))
            this)
   \<and> (querySelector CLASS_ZOOM_OUT_BUTTON (controlsElement this) = None
      \<and> querySelector CLASS_ZOOM_IN_BUTTON (controlsElement this) = None \<longrightarrow>
      checkButtonEnablement this = this)
   \<and> (\<forall>p. text_at (controlsElement (checkButtonEnablement this)) p =
            text_at (controlsElement this) p)
   \<and> (isFinite scale \<and> currentScaleElement that \<noteq> None \<longrightarrow>
        (\<exists>that'. setCurrentScale that scale = Inr that'))"
proof (intro conjI impI allI)
  assume a: "querySelector CLASS_ZOOM_OUT_BUTTON (controlsElement this) = None
    \<and> querySelector CLASS_ZOOM_IN_BUTTON (controlsElement this) = Some el"
  then show "disabled_at (controlsElement (checkButtonEnablement this)) el =
      Some (number_ge (field_number (currentScale this)) (field_number (maxZoom this)))"
    by (simp add: zoomIn_after_check)
  from a show "checkButtonEnablement this =
      update_element el
        (set_disabled
           (number_ge (field_number (currentScale this)) (field_number (maxZoom this))))
        this"
    by (simp add: checkButtonEnablement_def Let_def)
  fix p assume "p \<noteq> el"
  with a show "disabled_at (controlsElement (checkButtonEnablement this)) p =
      disabled_at (controlsElement this) p"
    by (simp add: controlsElement_checkButtonEnablement disabled_at_update_disabled)
next
  assume a: "querySelector CLASS_ZOOM_IN_BUTTON (controlsElement this) = None
    \<and> querySelector CLASS_ZOOM_OUT_BUTTON (controlsElement this) = Some el"
  then show "disabled_at (controlsElement (checkButtonEnablement this)) el =
      Some (number_le (field_number (currentScale this)) (field_number (minZoom this)))"
    by (simp add: zoomOut_after_check)
  from a show "checkButtonEnablement this =
      update_element el
        (set_disabled
           (number_le (field_number (currentScale this)) (field_number (minZoom this))))
        this"
    by (simp add: checkButtonEnablement_def Let_def)
  fix p assume "p \<noteq> el"
  with a show "disabled_at (controlsElement (checkButtonEnablement this)) p =
      disabled_at (controlsElement this) p"
    by (simp add: controlsElement_checkButtonEnablement disabled_at_update_disabled)
next
  assume "querySelector CLASS_ZOOM_OUT_BUTTON (controlsElement this) = None
    \<and> querySelector CLASS_ZOOM_IN_BUTTON (controlsElement this) = None"
  then show "checkButtonEnablement this = this"
    by (simp add: checkButtonEnablement_def Let_def)
next
  fix p
  show "text_at (controlsElement (checkButtonEnablement this)) p =
      text_at (controlsElement this) p"
    by simp
next
  assume "isFinite scale \<and> currentScaleElement that \<noteq> None"
  then show "\<exists>that'. setCurrentScale that scale = Inr that'"
    by (auto simp: setCurrentScale_def Let_def split: option.splits)
qed

theorem missing_button_is_skipped_witness:
  "querySelector CLASS_ZOOM_OUT_BUTTON (controlsElement (lone_button CLASS_ZOOM_IN_BUTTON)) = None
   \<and> querySelector CLASS_ZOOM_IN_BUTTON (controlsElement (lone_button CLASS_ZOOM_IN_BUTTON)) = Some [0]
   \<and> disabled_at (controlsElement (lone_button CLASS_ZOOM_IN_BUTTON)) [0] = Some True
   \<and> disabled_at (controlsElement (checkButtonEnablement (lone_button CLASS_ZOOM_IN_BUTTON))) [0]
       = Some False
   \<and> [] \<noteq> [0 :: nat]
   \<and> disabled_at (controlsElement (checkButtonEnablement (lone_button CLASS_ZOOM_IN_BUTTON))) []
       = Some False
   \<and> checkButtonEnablement (lone_button CLASS_ZOOM_IN_BUTTON)
       = update_element [0] (set_disabled False) (lone_button CLASS_ZOOM_IN_BUTTON)
   \<and> querySelector CLASS_ZOOM_IN_BUTTON (controlsElement (lone_button CLASS_ZOOM_OUT_BUTTON)) = None
   \<and> querySelector CLASS_ZOOM_OUT_BUTTON (controlsElement (lone_button CLASS_ZOOM_OUT_BUTTON)) = Some [0]
   \<and> disabled_at (controlsElement (lone_button CLASS_ZOOM_OUT_BUTTON)) [0] = Some True
   \<and> disabled_at (controlsElement (checkButtonEnablement (lone_button CLASS_ZOOM_OUT_BUTTON))) [0]
       = Some False
   \<and> disabled_at (controlsElement (checkButtonEnablement (lone_button CLASS_ZOOM_OUT_BUTTON))) []
       = Some False
   \<and> checkButtonEnablement (lone_button CLASS_ZOOM_OUT_BUTTON)
       = update_element [0] (set_disabled False) (lone_button CLASS_ZOOM_OUT_BUTTON)
   \<and> querySelector CLASS_ZOOM_OUT_BUTTON (controlsElement scenario_new) = None
   \<and> querySelector CLASS_ZOOM_IN_BUTTON (controlsElement scenario_new) = None
   \<and> checkButtonEnablement scenario_new = scenario_new
   \<and> isFinite (Number (Fin 2))
   \<and> currentScaleElement (scenario_new\<lparr>currentScaleElement := Some []\<rparr>) \<noteq> None
   \<and> (\<exists>that'. setCurrentScale (scenario_new\<lparr>currentScaleElement := Some []\<rparr>)
                  (Number (Fin 2)) = Inr that')"
proof -
  let ?i = "lone_button CLASS_ZOOM_IN_BUTTON"
  let ?o = "lone_button CLASS_ZOOM_OUT_BUTTON"
  have q: "querySelector CLASS_ZOOM_OUT_BUTTON (controlsElement ?i) = None"
    "querySelector CLASS_ZOOM_IN_BUTTON (controlsElement ?i) = Some [0]"
    "querySelector CLASS_ZOOM_IN_BUTTON (controlsElement ?o) = None"
    "querySelector CLASS_ZOOM_OUT_BUTTON (controlsElement ?o) = Some [0]"
    "querySelector CLASS_ZOOM_OUT_BUTTON (controlsElement scenario_new) = None"
    "querySelector CLASS_ZOOM_IN_BUTTON (controlsElement scenario_new) = None"
    by (simp_all add: controlsElement_def lone_button_def class_names class_tokens_def
          is_space_def scenario_defs)
  have f: "currentScale (lone_button c) = Some (Fin 50)" "minZoom (lone_button c) = Some (Fin 25)"
    "maxZoom (lone_button c) = Some (Fin 200)" for c
    by (simp_all add: lone_button_def)
  have before: "disabled_at (controlsElement (lone_button c)) [0] = Some True"
    "disabled_at (controlsElement (lone_button c)) [] = Some False" for c
    by (simp_all add: lone_button_def controlsElement_def disabled_at_def)
  have h: "isFinite (Number (Fin 2))"
    "currentScaleElement (scenario_new\<lparr>currentScaleElement := Some []\<rparr>) \<noteq> None"
    "[] \<noteq> [0 :: nat]"
    by simp_all
  note i = missing_button_is_skipped [where this = ?i and el = "[0]"]
  from i q(1,2)
  have "disabled_at (controlsElement (checkButtonEnablement ?i)) [0] =
      Some (number_ge (field_number (currentScale ?i)) (field_number (maxZoom ?i)))"
    by blast
  with f have a: "disabled_at (controlsElement (checkButtonEnablement ?i)) [0] = Some False"
    by (simp add: number_ge_def)
  from i q(1,2)
  have "checkButtonEnablement ?i =
      update_element [0]
        (set_disabled (number_ge (field_number (currentScale ?i)) (field_number (maxZoom ?i))))
        ?i"
    by blast
  with f have a'': "checkButtonEnablement ?i = update_element [0] (set_disabled False) ?i"
    by (simp add: number_ge_def)
  from i q(1,2) h(3)
  have "disabled_at (controlsElement (checkButtonEnablement ?i)) []
      = disabled_at (controlsElement ?i) []"
    by blast
  with before have a': "disabled_at (controlsElement (checkButtonEnablement ?i)) [] = Some False"
    by simp
  note o = missing_button_is_skipped [where this = ?o and el = "[0]"]
  from o q(3,4)
  have "disabled_at (controlsElement (checkButtonEnablement ?o)) [0] =
      Some (number_le (field_number (currentScale ?o)) (field_number (minZoom ?o)))"
    by blast
  with f have b: "disabled_at (controlsElement (checkButtonEnablement ?o)) [0] = Some False"
    by simp
  from o q(3,4)
  have "checkButtonEnablement ?o =
      update_element [0]
        (set_disabled (number_le (field_number (currentScale ?o)) (field_number (minZoom ?o))))
        ?o"
    by blast
  with f have b'': "checkButtonEnablement ?o = update_element [0] (set_disabled False) ?o"
    by simp
  from o q(3,4) h(3)
  have "disabled_at (controlsElement (checkButtonEnablement ?o)) []
      = disabled_at (controlsElement ?o) []"
    by blast
  with before have b': "disabled_at (controlsElement (checkButtonEnablement ?o)) [] = Some False"
    by simp
  from missing_button_is_skipped [where this = scenario_new] q(5,6)
  have c: "checkButtonEnablement scenario_new = scenario_new"
    by simp
  from missing_button_is_skipped
         [where scale = "Number (Fin 2)"
            and that = "scenario_new\<lparr>currentScaleElement := Some []\<rparr>"] h(1,2)
  have d: "\<exists>that'. setCurrentScale (scenario_new\<lparr>currentScaleElement := Some []\<rparr>)
                  (Number (Fin 2)) = Inr that'"
    by blast
  from q before [of CLASS_ZOOM_IN_BUTTON] before [of CLASS_ZOOM_OUT_BUTTON] a a' a'' b b' b'' c h d
  show ?thesis by blast
qed

subsection \<open>Scale update before init\<close>

text \<open>
  C10. With a finite scale, \<open>setCurrentScale\<close> returns normally exactly if the label
  element has been cached, and otherwise throws the TypeError of the access to
  \<open>this.currentScaleElement.textContent\<close>; on the instance the constructor returns, where
  \<open>init\<close> has not run, it throws; and on the instance a call of \<open>init\<close> returns, it
  returns normally.
\<close>

theorem setCurrentScale_needs_init:
  assumes "isFinite scale"
  shows "((\<exists>this'. setCurrentScale this scale = Inr this') \<longleftrightarrow> currentScaleElement this \<noteq> None)
       \<and> (currentScaleElement this = None \<longrightarrow> setCurrentScale this scale = Inl TypeError)
       \<and> (constructor v = Inr fresh \<longrightarrow> setCurrentScale fresh scale = Inl TypeError)
       \<and> (names_element (controlsElement before) []
            \<and> init env before scale' args = Inr ready \<longrightarrow>
            (\<exists>ready'. setCurrentScale ready scale = Inr ready'))"
proof -
  have "currentScaleElement fresh = None" if "constructor v = Inr fresh"
    using that by (cases v) auto
  moreover have "currentScaleElement ready \<noteq> None"
    if "names_element (controlsElement before) []" "init env before scale' args = Inr ready"
    using init_caches_label [OF that(2,1)] .
  ultimately show ?thesis
    using assms by (auto simp: setCurrentScale_def Let_def split: option.splits)
qed

theorem setCurrentScale_needs_init_witness:
  "isFinite (Number (Fin (1 / 2)))
   \<and> constructor (ControlsInstance scenario_host) = Inr scenario_new
   \<and> currentScaleElement scenario_new = None
   \<and> setCurrentScale scenario_new (Number (Fin (1 / 2))) = Inl TypeError
   \<and> names_element (controlsElement scenario_new) []
   \<and> init scenario_env scenario_new (Number (Fin (1 / 2))) (OptionsObject scenario_options)
       = Inr (scenario_state (Fin 50) ''50%'' False False)
   \<and> currentScaleElement (scenario_state (Fin 50) ''50%'' False False) \<noteq> None
   \<and> (\<exists>this'. setCurrentScale (scenario_state (Fin 50) ''50%'' False False)
                  (Number (Fin (1 / 2))) = Inr this')"
proof -
  have h: "isFinite (Number (Fin (1 / 2)))" by simp
  have c: "constructor (ControlsInstance scenario_host) = Inr scenario_new"
    "currentScaleElement scenario_new = None"
    "currentScaleElement (scenario_state (Fin 50) ''50%'' False False) \<noteq> None"
    "names_element (controlsElement scenario_new) []"
    by (simp_all add: scenario_new_def scenario_state_def scenario_host_def names_element_def
          controlsElement_def)
  from setCurrentScale_needs_init
         [OF h, where v = "ControlsInstance scenario_host" and fresh = scenario_new] c(1)
  have a: "setCurrentScale scenario_new (Number (Fin (1 / 2))) = Inl TypeError"
    by blast
  from setCurrentScale_needs_init
         [OF h, where before = scenario_new and env = scenario_env
            and scale' = "Number (Fin (1 / 2))" and args = "OptionsObject scenario_options"
            and ready = "scenario_state (Fin 50) ''50%'' False False"]
       c(4) init_scenario
  have b: "\<exists>this'. setCurrentScale (scenario_state (Fin 50) ''50%'' False False)
                  (Number (Fin (1 / 2))) = Inr this'"
    by blast
  from h c a b init_scenario show ?thesis by blast
qed

end
